theory Spec2Isabelle
  imports Main
begin

section \<open>JavaScript values\<close>

text \<open>
  The broker and the runner exchange JSON documents and the broker patches and
  filters them as plain JavaScript values. A value is \<open>undefined\<close>, \<open>null\<close>, a
  boolean, a number, a string, an array or an object. An object is the list of its own
  properties in the order the language enumerates them. Numbers are the integers that
  a JavaScript number holds exactly, those of magnitude at most \<open>2^53\<close>
  (timestamps and counters are the only numbers a job carries); fractions, larger
  magnitudes, \<open>NaN\<close> and the infinities are outside the model. A string is a list
  of 8-bit characters. What a value inherits from its prototype (\<open>toString\<close>,
  \<open>constructor\<close>, the methods of a class) is not part of the value; a member read
  that reaches it is modelled by \<open>memberGet\<close> below.
\<close>

datatype jsval =
    JUndefined
  | JNull
  | JBool bool
  | JNum int
  | JStr string
  | JArr "jsval list"
  | JObj "(string \<times> jsval) list"

text \<open>\<open>s.split(c)\<close> for a one-character separator: \<open>n\<close> separators give
  \<open>n + 1\<close> pieces, and the empty string gives one empty piece.\<close>

fun split_on :: "char \<Rightarrow> string \<Rightarrow> string list" where
  "split_on c [] = [[]]"
| "split_on c (x # xs) =
     (if x = c then [] # split_on c xs
      else (case split_on c xs of
              [] \<Rightarrow> [[x]]
            | w # ws \<Rightarrow> (x # w) # ws))"

text \<open>\<open>s.endsWith('!')\<close>.\<close>

definition endsWith :: "string \<Rightarrow> char \<Rightarrow> bool" where
  "endsWith s c = (case rev s of [] \<Rightarrow> False | x # _ \<Rightarrow> x = c)"

definition is_digit :: "char \<Rightarrow> bool" where
  "is_digit c = (48 \<le> (of_char c :: nat) \<and> (of_char c :: nat) \<le> 57)"

definition decimal :: "string \<Rightarrow> nat" where
  "decimal s = foldl (\<lambda>n c. 10 * n + ((of_char c :: nat) - 48)) 0 s"

text \<open>A property name that is an array index: decimal digits with no leading zero.\<close>

definition array_index :: "string \<Rightarrow> nat option" where
  "array_index s =
     (if s \<noteq> [] \<and> list_all is_digit s \<and> (s = ''0'' \<or> hd s \<noteq> CHR ''0'')
      then Some (decimal s) else None)"

text \<open>The own property \<open>k\<close> of an object, \<open>undefined\<close> when it has none.\<close>

definition own_prop :: "(string \<times> jsval) list \<Rightarrow> string \<Rightarrow> jsval" where
  "own_prop kvs k = (case map_of kvs k of None \<Rightarrow> JUndefined | Some v \<Rightarrow> v)"

text \<open>
  The own property \<open>k\<close> of any value, read as \<open>value?.[k]\<close> reads it: nothing on
  \<open>undefined\<close> and \<open>null\<close>; an object gives its property; an array and a string
  give an element or their \<open>length\<close>; a number and a boolean have no own properties.
  What a value inherits is not read here (see \<open>memberGet\<close> below).
\<close>

fun optGet :: "jsval \<Rightarrow> string \<Rightarrow> jsval" where
  "optGet JUndefined k = JUndefined"
| "optGet JNull k = JUndefined"
| "optGet (JBool b) k = JUndefined"
| "optGet (JNum n) k = JUndefined"
| "optGet (JStr s) k =
     (if k = ''length'' then JNum (int (length s))
      else (case array_index k of
              None \<Rightarrow> JUndefined
            | Some i \<Rightarrow> if i < length s then JStr [s ! i] else JUndefined))"
| "optGet (JArr xs) k =
     (if k = ''length'' then JNum (int (length xs))
      else (case array_index k of
              None \<Rightarrow> JUndefined
            | Some i \<Rightarrow> if i < length xs then xs ! i else JUndefined))"
| "optGet (JObj kvs) k = own_prop kvs k"

text \<open>
  Whether \<open>k\<close> is an own property of the value: a key of the object, an index within
  the array or string, or their \<open>length\<close>.
\<close>

fun has_own :: "jsval \<Rightarrow> string \<Rightarrow> bool" where
  "has_own (JObj kvs) k = (map_of kvs k \<noteq> None)"
| "has_own (JArr xs) k =
     (k = ''length'' \<or> (case array_index k of None \<Rightarrow> False | Some i \<Rightarrow> i < length xs))"
| "has_own (JStr s) k =
     (k = ''length'' \<or> (case array_index k of None \<Rightarrow> False | Some i \<Rightarrow> i < length s))"
| "has_own v k = False"

text \<open>
  A member read does not stop at own properties: a name the value does not have itself
  is looked up along its prototype chain, where \<open>constructor\<close>, \<open>toString\<close> and the
  methods of strings and arrays live, and what is found there is in general not JSON
  data (a function, a prototype object). Such a value is \<open>Foreign\<close>, of a type \<open>'x\<close>
  that is left open; a foreign value is never \<open>undefined\<close>. What the language
  contributes is gathered in a record: what a JSON value inherits under a name that is
  not its own (\<open>Data JUndefined\<close> when no prototype has it), what a member read on a
  foreign value gives, and whether a string is loosely equal to a value that is neither
  a string nor \<open>null\<close> nor \<open>undefined\<close> (which takes a coercion by ToNumber or
  ToPrimitive). No statement below constrains the three.
\<close>

datatype 'x walked = Data jsval | Foreign 'x

record 'x lang =
  inherited :: "jsval \<Rightarrow> string \<Rightarrow> 'x walked"
  foreign_get :: "'x \<Rightarrow> string \<Rightarrow> 'x walked"
  coerce_eq :: "string \<Rightarrow> 'x walked \<Rightarrow> bool"

text \<open>
  \<open>value?.[walk]\<close>: \<open>undefined\<close> on \<open>undefined\<close> and \<open>null\<close> (the optional chain),
  the own property when there is one, otherwise what the prototype chain gives.
\<close>

fun memberGet :: "'x lang \<Rightarrow> 'x walked \<Rightarrow> string \<Rightarrow> 'x walked" where
  "memberGet L (Foreign f) k = foreign_get L f k"
| "memberGet L (Data v) k =
     (if v = JUndefined \<or> v = JNull then Data JUndefined
      else if has_own v k then Data (optGet v k)
      else inherited L v k)"

text \<open>
  \<open>v == value\<close> with a string on the left. Against a string it is equality of the
  two strings; \<open>null\<close> and \<open>undefined\<close> are loosely equal only to each other, so
  never to a string; against anything else it is the language's coercing comparison.
\<close>

fun looseEq :: "'x lang \<Rightarrow> string \<Rightarrow> 'x walked \<Rightarrow> bool" where
  "looseEq L v (Data (JStr s)) = (v = s)"
| "looseEq L v (Data JUndefined) = False"
| "looseEq L v (Data JNull) = False"
| "looseEq L v w = coerce_eq L v w"

section \<open>The broker's filter\<close>

text \<open>
  \<open>Server.filter\<close>: the query is the list of its entries
  (\<open>Object.entries(query)\<close>), each a key and a string value. One pass of the
  \<open>for\<close> loop is \<open>filter_entry\<close>: strip a trailing \<open>!\<close>, split the key at
  dots, split the value at commas and drop the empty pieces
  (\<open>.filter((v) => Boolean(v))\<close>), then keep the candidates whose walked value
  matches (or, negated, does not match) one of the values.
\<close>

definition filter_entry :: "'x lang \<Rightarrow> string \<times> string \<Rightarrow> jsval list \<Rightarrow> jsval list" where
  "filter_entry L entry candidates =
     (let negate = endsWith (fst entry) CHR ''!'';
          key = (if negate then butlast (fst entry) else fst entry);
          names = split_on CHR ''.'' key;
          values = filter (\<lambda>v. v \<noteq> []) (split_on CHR '','' (snd entry))
      in filter (\<lambda>value0.
           let walked = foldl (memberGet L) (Data value0) names;
               value1 = (if walked = Data JUndefined then Data (JStr ''undefined'') else walked);
               matched = list_ex (\<lambda>v. looseEq L v value1) values
           in if negate then \<not> matched else matched) candidates)"

text \<open>
  The two arrays of the function: the argument \<open>beginning_set\<close> and the local
  \<open>filtered\<close>, which starts as a copy of the argument and is replaced by a new array
  in each pass of the loop. Nothing in the function assigns to the argument or to an
  element of it.
\<close>

record filter_state =
  beginning_set :: "jsval list"
  filtered :: "jsval list"

definition filter_run ::
  "'x lang \<Rightarrow> jsval list \<Rightarrow> (string \<times> string) list \<Rightarrow> filter_state" where
  "filter_run L cs query =
     foldl (\<lambda>st entry. st\<lparr>filtered := filter_entry L entry (filtered st)\<rparr>)
       \<lparr>beginning_set = cs, filtered = cs\<rparr> query"

definition Server_filter :: "'x lang \<Rightarrow> jsval list \<Rightarrow> (string \<times> string) list \<Rightarrow> jsval list" where
  "Server_filter L cs query = filtered (filter_run L cs query)"

subsection \<open>The filter grammar in words\<close>

text \<open>The path of a query key (the key without its trailing \<open>!\<close>, split at dots).\<close>

definition key_path :: "string \<Rightarrow> string list" where
  "key_path key = split_on CHR ''.'' (if endsWith key CHR ''!'' then butlast key else key)"

text \<open>
  One query key on one candidate, given the alternatives of its value and the value the
  key resolved to: without negation the candidate passes when the resolved value loosely
  equals any alternative, with a trailing \<open>!\<close> only when it equals none of them.
\<close>

definition key_passes :: "'x lang \<Rightarrow> string list \<Rightarrow> string \<Rightarrow> 'x walked \<Rightarrow> bool" where
  "key_passes L alternatives key resolved =
     (if endsWith key CHR ''!''
      then list_all (\<lambda>a. \<not> looseEq L a resolved) alternatives
      else list_ex (\<lambda>a. looseEq L a resolved) alternatives)"

text \<open>
  The grammar as the claim words it: a dotted key resolves through the candidate's
  nested fields, a missing intermediate field or an absent final field gives the
  string \<open>"undefined"\<close>, and every comma-separated piece of the value is an
  alternative.
\<close>

fun resolve_claimed :: "jsval \<Rightarrow> string list \<Rightarrow> jsval" where
  "resolve_claimed v [] = (if v = JUndefined then JStr ''undefined'' else v)"
| "resolve_claimed v (n # ns) =
     (if v = JUndefined then JStr ''undefined'' else resolve_claimed (optGet v n) ns)"

definition filter_claimed ::
  "'x lang \<Rightarrow> jsval list \<Rightarrow> (string \<times> string) list \<Rightarrow> jsval list" where
  "filter_claimed L candidates query =
     filter (\<lambda>c. list_all (\<lambda>e. key_passes L (split_on CHR '','' (snd e)) (fst e)
                              (Data (resolve_claimed c (key_path (fst e))))) query)
       candidates"

text \<open>
  The grammar as the code has it: each step of a dotted key is a member read, so a
  name that the value inherits resolves to what it inherits; a step on \<open>undefined\<close>
  and a final \<open>undefined\<close> give the string \<open>"undefined"\<close>; the alternatives are
  the non-empty comma-separated pieces.
\<close>

fun resolve_spec :: "'x lang \<Rightarrow> 'x walked \<Rightarrow> string list \<Rightarrow> 'x walked" where
  "resolve_spec L w [] = (if w = Data JUndefined then Data (JStr ''undefined'') else w)"
| "resolve_spec L w (n # ns) =
     (if w = Data JUndefined then Data (JStr ''undefined'')
      else resolve_spec L (memberGet L w n) ns)"

definition filter_amended ::
  "'x lang \<Rightarrow> jsval list \<Rightarrow> (string \<times> string) list \<Rightarrow> jsval list" where
  "filter_amended L candidates query =
     filter (\<lambda>c. list_all (\<lambda>e. key_passes L
                (filter (\<lambda>a. a \<noteq> []) (split_on CHR '','' (snd e))) (fst e)
                (resolve_spec L (Data c) (key_path (fst e)))) query)
       candidates"

text \<open>The three jobs of the specification's filter examples.\<close>

definition job_A :: jsval where
  "job_A = JObj [(''id'', JStr ''A''), (''platform'', JStr ''mac'')]"

definition job_B :: jsval where
  "job_B = JObj [(''id'', JStr ''B''), (''platform'', JStr ''win'')]"

definition job_C :: jsval where
  "job_C = JObj [(''id'', JStr ''C''), (''platform'', JUndefined)]"

text \<open>
  A fragment of JavaScript for the concrete runs: an object inherits \<open>constructor\<close>
  (the function \<open>Object\<close>, whose \<open>name\<close> is \<open>"Object"\<close>) and \<open>toString\<close> (a
  function), and a string is not loosely equal to a function.
\<close>

datatype builtin = Object_function | Object_method string

definition proto_lang :: "builtin lang" where
  "proto_lang =
     \<lparr>inherited = (\<lambda>v k. case v of
          JObj kvs \<Rightarrow> if k = ''constructor'' then Foreign Object_function
                      else if k = ''toString'' then Foreign (Object_method k)
                      else Data JUndefined
        | _ \<Rightarrow> Data JUndefined),
      foreign_get = (\<lambda>f k. if f = Object_function \<and> k = ''name'' then Data (JStr ''Object'')
                            else Data JUndefined),
      coerce_eq = (\<lambda>v w. False)\<rparr>"

section \<open>Objects, numbers as text, JSON on the wire\<close>

text \<open>
  \<open>obj[k] = v\<close>: an existing own property keeps its place. A new property whose name
  is an array index (a canonical decimal below \<open>2^32 - 1\<close>) goes among the index
  names in ascending order, which an object lists first; any other new property goes
  last.
\<close>

definition index_key :: "string \<Rightarrow> nat option" where
  "index_key k =
     (case array_index k of
        None \<Rightarrow> None
      | Some n \<Rightarrow> if n < 4294967295 then Some n else None)"

fun replace_prop :: "(string \<times> jsval) list \<Rightarrow> string \<Rightarrow> jsval \<Rightarrow> (string \<times> jsval) list" where
  "replace_prop [] k v = []"
| "replace_prop (p # ps) k v = (if fst p = k then (k, v) # ps else p # replace_prop ps k v)"

fun insert_index :: "nat \<Rightarrow> string \<Rightarrow> jsval \<Rightarrow> (string \<times> jsval) list \<Rightarrow> (string \<times> jsval) list" where
  "insert_index n k v [] = [(k, v)]"
| "insert_index n k v (p # ps) =
     (case index_key (fst p) of
        None \<Rightarrow> (k, v) # p # ps
      | Some m \<Rightarrow> if m < n then p # insert_index n k v ps else (k, v) # p # ps)"

definition set_prop :: "(string \<times> jsval) list \<Rightarrow> string \<Rightarrow> jsval \<Rightarrow> (string \<times> jsval) list" where
  "set_prop kvs k v =
     (if map_of kvs k \<noteq> None then replace_prop kvs k v
      else (case index_key k of
              None \<Rightarrow> kvs @ [(k, v)]
            | Some n \<Rightarrow> insert_index n k v kvs))"

text \<open>\<open>delete obj[k]\<close>.\<close>

definition del_prop :: "(string \<times> jsval) list \<Rightarrow> string \<Rightarrow> (string \<times> jsval) list" where
  "del_prop kvs k = filter (\<lambda>p. fst p \<noteq> k) kvs"

text \<open>\<open>Object.assign(target, source)\<close>: every own property of the source is
  assigned to the target, in the source's order.\<close>

definition Object_assign ::
  "(string \<times> jsval) list \<Rightarrow> (string \<times> jsval) list \<Rightarrow> (string \<times> jsval) list" where
  "Object_assign target source = foldl (\<lambda>t p. set_prop t (fst p) (snd p)) target source"

fun show_nat :: "nat \<Rightarrow> string" where
  "show_nat n =
     (if n < 10 then [char_of (48 + n)]
      else show_nat (n div 10) @ [char_of (48 + n mod 10)])"

declare show_nat.simps [simp del]

definition show_int :: "int \<Rightarrow> string" where
  "show_int i = (if i < 0 then CHR ''-'' # show_nat (nat (- i)) else show_nat (nat i))"

definition join :: "string \<Rightarrow> string list \<Rightarrow> string" where
  "join sep xs = (case xs of [] \<Rightarrow> [] | y # ys \<Rightarrow> foldl (\<lambda>acc s. acc @ sep @ s) y ys)"

text \<open>\<open>String(x)\<close>, as a template literal \<open>`${x}`\<close> computes it.\<close>

fun to_string :: "jsval \<Rightarrow> string" where
  "to_string JUndefined = ''undefined''"
| "to_string JNull = ''null''"
| "to_string (JBool b) = (if b then ''true'' else ''false'')"
| "to_string (JNum n) = show_int n"
| "to_string (JStr s) = s"
| "to_string (JArr xs) =
     join '','' (map (\<lambda>x. if x = JUndefined \<or> x = JNull then [] else to_string x) xs)"
| "to_string (JObj kvs) = ''[object Object]''"

text \<open>
  \<open>JSON.parse(JSON.stringify(x))\<close> for a value other than \<open>undefined\<close>: a property
  whose value is \<open>undefined\<close> is left out, an \<open>undefined\<close> array element becomes
  \<open>null\<close>. This is what a value goes through on its way from the runner to the
  broker, and what the patch library's deep clone does to an object. A number comes
  back as it went in: that holds of the integers of the model, which a JavaScript
  number holds exactly, and says nothing of a number beyond \<open>2^53\<close>, which the
  language would have rounded before it was ever written out.
\<close>

fun json_roundtrip :: "jsval \<Rightarrow> jsval" where
  "json_roundtrip (JObj kvs) =
     JObj (map (\<lambda>(k, v). (k, json_roundtrip v)) (filter (\<lambda>(k, v). v \<noteq> JUndefined) kvs))"
| "json_roundtrip (JArr xs) =
     JArr (map (\<lambda>x. if x = JUndefined then JNull else json_roundtrip x) xs)"
| "json_roundtrip x = x"

text \<open>ASCII lower case: Node delivers header names in lower case and Express looks
  them up that way.\<close>

definition lower_char :: "char \<Rightarrow> char" where
  "lower_char c =
     (if 65 \<le> (of_char c :: nat) \<and> (of_char c :: nat) \<le> 90
      then char_of ((of_char c :: nat) + 32) else c)"

definition lower :: "string \<Rightarrow> string" where
  "lower s = map lower_char s"

section \<open>Requests, responses, patch operations\<close>

text \<open>
  A JSON-Patch operation as the request body carries it. \<open>Get\<close> is the library's
  internal \<open>_get\<close>; \<open>Unknown\<close> is any other operation name. \<open>op_from\<close> is read by
  move and copy only, \<open>op_value\<close> is \<open>undefined\<close> when the operation has none.
\<close>

datatype opname = Add | Remove | Replace | Move | Copy | Test | Get | Unknown string

record patchop =
  op_name :: opname
  op_path :: string
  op_from :: string
  op_value :: jsval

text \<open>
  A request to \<open>/api/jobs/{id}\<close>: \<open>req_id\<close> is \<open>path.basename(req.url)\<close>, the
  headers are listed under their lower-case names, the body is the parsed operation
  array. Headers that the HTTP client adds by itself (content type, length, user agent)
  are not listed; none of them is a conditional header.
\<close>

record request =
  req_id :: string
  req_headers :: "(string \<times> string) list"
  req_body :: "patchop list"

record response =
  status_code :: nat
  resp_headers :: "(string \<times> string) list"
  resp_body :: string

text \<open>\<open>req.header(name)\<close>.\<close>

definition req_header :: "request \<Rightarrow> string \<Rightarrow> string option" where
  "req_header req name = map_of (req_headers req) (lower name)"

text \<open>The operation as it arrives at the broker after the JSON round trip.\<close>

definition wire :: "patchop \<Rightarrow> patchop" where
  "wire p = p\<lparr>op_value := json_roundtrip (op_value p)\<rparr>"

section \<open>The runner\<close>

text \<open>
  The fields of \<open>Runner\<close> that the poll loop reads and writes. \<open>etag\<close>, \<open>jobId\<close>
  and \<open>timeBegun\<close> are unset until a job has been fetched and deleted again at the
  end of \<open>poll\<close>.
\<close>

record runner =
  platform :: string
  uuid :: string
  etag :: "string option"
  jobId :: jsval
  timeBegun :: "int option"

definition num_or_undefined :: "int option \<Rightarrow> jsval" where
  "num_or_undefined t = (case t of None \<Rightarrow> JUndefined | Some n \<Rightarrow> JNum n)"

text \<open>\<open>fetchAvailableJobs\<close>: the search parameters appended to the list URL.\<close>

definition fetchAvailableJobs :: "runner \<Rightarrow> (string \<times> string) list" where
  "fetchAvailableJobs r =
     [(''platform'', platform r @ '',undefined''),
      (''current.runner'', ''undefined''),
      (''last.status'', ''undefined''),
      (''type'', ''bisect'')]"

text \<open>\<open>poll\<close>, lines 94 to 97: the fetched job and etag and the clock are recorded.\<close>

definition poll_fetched :: "runner \<Rightarrow> (string \<times> jsval) list \<Rightarrow> string \<Rightarrow> int \<Rightarrow> runner" where
  "poll_fetched r job initialEtag now =
     r\<lparr>etag := Some initialEtag, jobId := own_prop job ''id'', timeBegun := Some now\<rparr>"

text \<open>\<open>poll\<close>, lines 100 to 104: the operations of the claim.\<close>

definition claim_patches :: "runner \<Rightarrow> patchop list" where
  "claim_patches r =
     [\<lparr>op_name = Replace, op_path = ''/current'', op_from = [],
       op_value = JObj [(''runner'', JStr (uuid r)),
                        (''time_begun'', num_or_undefined (timeBegun r))]\<rparr>]"

text \<open>\<open>patchJob\<close>, the request it sends: the runner's etag goes out under the header
  name \<open>etag\<close>.\<close>

definition Runner_patchJob :: "runner \<Rightarrow> patchop list \<Rightarrow> request" where
  "Runner_patchJob r patches =
     \<lparr>req_id = to_string (jobId r),
      req_headers = (case etag r of None \<Rightarrow> [] | Some e \<Rightarrow> [(lower ''etag'', e)]),
      req_body = map wire patches\<rparr>"

text \<open>
  \<open>patchJob\<close>, after the response: the HTTP client (\<open>got\<close>, with its defaults)
  resolves on a status in 2xx and on 304 and throws on any other; a response without
  an etag header throws; otherwise the new etag is stored.
\<close>

datatype runner_error = HTTPError nat | MissingEtag

definition Runner_patchJob_done :: "runner \<Rightarrow> response \<Rightarrow> runner_error + runner" where
  "Runner_patchJob_done r resp =
     (if \<not> ((200 \<le> status_code resp \<and> status_code resp < 300) \<or> status_code resp = 304)
      then Inl (HTTPError (status_code resp))
      else (case map_of (resp_headers resp) ''etag'' of
              None \<Rightarrow> Inl MissingEtag
            | Some e \<Rightarrow> if e = [] then Inl MissingEtag else Inr (r\<lparr>etag := Some e\<rparr>)))"

text \<open>\<open>patchResult\<close>: the defaults, the merged Result and the three operations.\<close>

definition result_defaults :: "runner \<Rightarrow> int \<Rightarrow> (string \<times> jsval) list" where
  "result_defaults r now =
     [(''runner'', JStr (uuid r)),
      (''status'', JStr ''system_error''),
      (''time_begun'', num_or_undefined (timeBegun r)),
      (''time_ended'', JNum now)]"

definition Runner_result :: "runner \<Rightarrow> int \<Rightarrow> (string \<times> jsval) list \<Rightarrow> (string \<times> jsval) list" where
  "Runner_result r now result = Object_assign (result_defaults r now) result"

definition patchResult_patches :: "(string \<times> jsval) list \<Rightarrow> patchop list" where
  "patchResult_patches result =
     [\<lparr>op_name = Add, op_path = ''/history/-'', op_from = [], op_value = JObj result\<rparr>,
      \<lparr>op_name = Replace, op_path = ''/last'', op_from = [], op_value = JObj result\<rparr>,
      \<lparr>op_name = Remove, op_path = ''/current'', op_from = [], op_value = JUndefined\<rparr>]"

definition Runner_patchResult :: "runner \<Rightarrow> int \<Rightarrow> (string \<times> jsval) list \<Rightarrow> request" where
  "Runner_patchResult r now result =
     Runner_patchJob r (patchResult_patches (Runner_result r now result))"

text \<open>
  \<open>runBisect\<close>. The output parser (\<open>fiddle-bisect-parser\<close>) is a parameter: given
  the joined standard output it throws (\<open>Inl\<close>, with the text of the exception) or
  returns a narrowed pair or the signal that it could not narrow. \<open>on_close\<close> is the
  handler of the child's \<open>close\<close> event up to the call of \<open>patchResult\<close>, with the exit
  code \<open>None\<close> when the child was killed by a signal; \<open>on_error\<close> is the handler of
  its \<open>error\<close> event.
\<close>

datatype bisect_output = Narrowed string string | NotNarrowed

definition on_close ::
  "(string \<Rightarrow> string + bisect_output) \<Rightarrow> string list \<Rightarrow> int option \<Rightarrow> (string \<times> jsval) list" where
  "on_close parseFiddleBisectOutput stdout exitCode =
     (case parseFiddleBisectOutput (concat stdout) of
        Inr (Narrowed goodVersion badVersion) \<Rightarrow>
          [(''status'', JStr ''success''),
           (''bisect_range'', JArr [JStr goodVersion, JStr badVersion])]
      | Inr NotNarrowed \<Rightarrow>
          [(''error'', JStr ''Failed to narrow test down to two versions''),
           (''status'', if exitCode = Some 1 then JStr ''test_error'' else JStr ''system_error'')]
      | Inl parseErr \<Rightarrow>
          [(''status'', JStr ''system_error''), (''error'', JStr parseErr)])"

definition on_error :: "string \<Rightarrow> (string \<times> jsval) list" where
  "on_error err = [(''error'', JStr err), (''status'', JStr ''system_error'')]"

text \<open>A worker before its first poll, for the concrete runs below.\<close>

definition worker0 :: runner where
  "worker0 =
     \<lparr>platform = ''linux'', uuid = ''w1'', etag = None, jobId = JUndefined, timeBegun = None\<rparr>"

section \<open>The patch library\<close>

text \<open>
  The broker hands the task, the request body and a validator callback to
  \<open>jsonpatch.applyPatch\<close> of the fast-json-patch package. The package is not part
  of the repository; what follows models its \<open>core\<close> module as the broker uses it:
  the operations are applied one after the other to the document itself
  (\<open>mutateDocument\<close> is left at its default \<open>true\<close>), the callback runs on an
  operation right before that operation is applied, and an exception ends the run
  where it stands. Mutation in place becomes a document that is passed along.

  Limits of the model, none of which a statement below rests on: a named (non-index)
  property stored on an array is dropped; \<open>splice\<close> with a key that is not a digit
  string starts at index 0; digit strings are read exactly, where JavaScript rounds
  beyond \<open>2^53\<close>; a move whose \<open>from\<close> is the whole document, which would make the
  document contain itself, is an error that changes nothing.
\<close>

datatype patch_error = JsonPatchError string | TypeError

fun replace2 :: "char \<Rightarrow> char \<Rightarrow> char \<Rightarrow> string \<Rightarrow> string" where
  "replace2 a b c (x # y # zs) =
     (if x = a \<and> y = b then c # replace2 a b c zs else x # replace2 a b c (y # zs))"
| "replace2 a b c xs = xs"

text \<open>\<open>unescapePathComponent\<close>: first \<open>~1\<close> to \<open>/\<close>, then \<open>~0\<close> to \<open>~\<close>.\<close>

definition unescapePathComponent :: "string \<Rightarrow> string" where
  "unescapePathComponent s =
     replace2 CHR ''~'' CHR ''0'' CHR ''~'' (replace2 CHR ''~'' CHR ''1'' CHR ''/'' s)"

text \<open>\<open>isInteger\<close>: every character is a decimal digit (true of the empty string).\<close>

definition isInteger :: "string \<Rightarrow> bool" where
  "isInteger s = list_all is_digit s"

text \<open>\<open>~~key\<close> on a digit string: the number, wrapped to a signed 32-bit integer.\<close>

definition to_int32 :: "nat \<Rightarrow> int" where
  "to_int32 n = (let m = int n mod 4294967296 in if 2147483648 \<le> m then m - 4294967296 else m)"

text \<open>\<open>_areEquals\<close>: arrays element by element, objects key by key whatever the
  order, everything else by identity.\<close>

fun areEquals :: "jsval \<Rightarrow> jsval \<Rightarrow> bool" where
  "areEquals (JArr xs) (JArr ys) = list_all2 areEquals xs ys"
| "areEquals (JObj as) (JObj bs) =
     (length as = length bs
      \<and> list_all (\<lambda>(k, a). k \<in> fst ` set bs) as
      \<and> list_all (\<lambda>(k, a). areEquals a (own_prop bs k)) as)"
| "areEquals a b = (a = b)"

text \<open>\<open>_deepClone\<close>: \<open>undefined\<close> becomes \<open>null\<close>, anything else goes through JSON.\<close>

definition deepClone :: "jsval \<Rightarrow> jsval" where
  "deepClone v = (if v = JUndefined then JNull else json_roundtrip v)"

definition is_container :: "jsval \<Rightarrow> bool" where
  "is_container v = (case v of JObj _ \<Rightarrow> True | JArr _ \<Rightarrow> True | _ \<Rightarrow> False)"

subsection \<open>The last step of an operation\<close>

text \<open>
  \<open>objOps[op].call(operation, obj, key, document)\<close> on an object: the changed
  object and the value the operation hands back (\<open>removed\<close>, or the value read by
  \<open>_get\<close>). Move and copy work on the whole document and are completed by
  \<open>apply_in\<close> below; here they leave the object as it is. An operation name the table
  does not have is a call of \<open>undefined\<close>.
\<close>

fun obj_final ::
  "opname \<Rightarrow> jsval \<Rightarrow> (string \<times> jsval) list \<Rightarrow> string \<Rightarrow> patch_error + (jsval \<times> jsval)" where
  "obj_final Add v kvs key = Inr (JObj (set_prop kvs key v), JUndefined)"
| "obj_final Remove v kvs key = Inr (JObj (del_prop kvs key), own_prop kvs key)"
| "obj_final Replace v kvs key = Inr (JObj (set_prop kvs key v), own_prop kvs key)"
| "obj_final Test v kvs key =
     (if areEquals (own_prop kvs key) v then Inr (JObj kvs, JUndefined)
      else Inl (JsonPatchError ''TEST_OPERATION_FAILED''))"
| "obj_final Get v kvs key = Inr (JObj kvs, own_prop kvs key)"
| "obj_final Move v kvs key = Inr (JObj kvs, JUndefined)"
| "obj_final Copy v kvs key = Inr (JObj kvs, JUndefined)"
| "obj_final (Unknown n) v kvs key = Inl TypeError"

text \<open>\<open>arr[i]\<close>, \<open>arr[i] = v\<close> and the start index of \<open>arr.splice(i, ...)\<close> for a
  number \<open>i\<close>.\<close>

definition arr_get :: "jsval list \<Rightarrow> int \<Rightarrow> jsval" where
  "arr_get xs i = (if 0 \<le> i \<and> nat i < length xs then xs ! nat i else JUndefined)"

definition arr_set :: "jsval list \<Rightarrow> int \<Rightarrow> jsval \<Rightarrow> jsval list" where
  "arr_set xs i v =
     (if i < 0 then xs
      else if nat i < length xs then xs[nat i := v]
      else xs @ replicate (nat i - length xs) JUndefined @ [v])"

definition splice_start :: "int \<Rightarrow> nat \<Rightarrow> nat" where
  "splice_start i len = (if i < 0 then nat (max (int len + i) 0) else min (nat i) len)"

text \<open>\<open>arrOps[op].call(operation, arr, i, document)\<close> with the index already a number.
  A validated add beyond the end of the array is refused before the call.\<close>

fun arr_final ::
  "bool \<Rightarrow> opname \<Rightarrow> jsval \<Rightarrow> jsval list \<Rightarrow> int \<Rightarrow> patch_error + (jsval \<times> jsval)" where
  "arr_final vld Add v xs i =
     (if vld \<and> int (length xs) < i then Inl (JsonPatchError ''OPERATION_VALUE_OUT_OF_BOUNDS'')
      else Inr (JArr (take (splice_start i (length xs)) xs @ [v]
                      @ drop (splice_start i (length xs)) xs), JUndefined))"
| "arr_final vld Remove v xs i =
     Inr (JArr (take (splice_start i (length xs)) xs @ drop (Suc (splice_start i (length xs))) xs),
          arr_get xs (int (splice_start i (length xs))))"
| "arr_final vld Replace v xs i = Inr (JArr (arr_set xs i v), arr_get xs i)"
| "arr_final vld Test v xs i =
     (if areEquals (arr_get xs i) v then Inr (JArr xs, JUndefined)
      else Inl (JsonPatchError ''TEST_OPERATION_FAILED''))"
| "arr_final vld Get v xs i = Inr (JArr xs, arr_get xs i)"
| "arr_final vld Move v xs i = Inr (JArr xs, JUndefined)"
| "arr_final vld Copy v xs i = Inr (JArr xs, JUndefined)"
| "arr_final vld (Unknown n) v xs i = Inl TypeError"

text \<open>
  The key of an array step: \<open>-\<close> is the length, a digit string is its number; any
  other key is refused under validation and otherwise stays a string (\<open>None\<close>).
\<close>

definition arr_index :: "bool \<Rightarrow> string \<Rightarrow> jsval list \<Rightarrow> patch_error + int option" where
  "arr_index vld key xs =
     (if key = ''-'' then Inr (Some (int (length xs)))
      else if isInteger key then Inr (Some (to_int32 (decimal key)))
      else if vld then Inl (JsonPatchError ''OPERATION_PATH_ILLEGAL_ARRAY_INDEX'')
      else Inr None)"

text \<open>
  The last step on an array under a key that stayed a string (only without
  validation): reads see \<open>length\<close> or nothing, \<open>splice\<close> starts at 0, a write makes a
  named property.
\<close>

fun arr_final_named ::
  "opname \<Rightarrow> jsval \<Rightarrow> jsval list \<Rightarrow> string \<Rightarrow> patch_error + (jsval \<times> jsval)" where
  "arr_final_named Add v xs key = Inr (JArr xs, JUndefined)"
| "arr_final_named Remove v xs key = arr_final False Remove v xs 0"
| "arr_final_named Replace v xs key = Inr (JArr xs, optGet (JArr xs) key)"
| "arr_final_named Test v xs key =
     (if areEquals (optGet (JArr xs) key) v then Inr (JArr xs, JUndefined)
      else Inl (JsonPatchError ''TEST_OPERATION_FAILED''))"
| "arr_final_named Get v xs key = Inr (JArr xs, optGet (JArr xs) key)"
| "arr_final_named Move v xs key = Inr (JArr xs, JUndefined)"
| "arr_final_named Copy v xs key = Inr (JArr xs, JUndefined)"
| "arr_final_named (Unknown n) v xs key = Inl TypeError"

text \<open>
  The last step on a string, number or boolean (strict mode): reads work, a write
  throws, deleting a property that is not there does nothing.
\<close>

fun prim_final ::
  "opname \<Rightarrow> jsval \<Rightarrow> jsval \<Rightarrow> string \<Rightarrow> patch_error + (jsval \<times> jsval)" where
  "prim_final Add v obj key = Inl TypeError"
| "prim_final Replace v obj key = Inl TypeError"
| "prim_final Remove v obj key =
     (if optGet obj key = JUndefined then Inr (obj, JUndefined) else Inl TypeError)"
| "prim_final Test v obj key =
     (if areEquals (optGet obj key) v then Inr (obj, JUndefined)
      else Inl (JsonPatchError ''TEST_OPERATION_FAILED''))"
| "prim_final Get v obj key = Inr (obj, optGet obj key)"
| "prim_final Move v obj key = Inr (obj, JUndefined)"
| "prim_final Copy v obj key = Inr (obj, JUndefined)"
| "prim_final (Unknown n) v obj key = Inl TypeError"

definition put_back :: "(jsval \<Rightarrow> jsval) \<Rightarrow> patch_error + (jsval \<times> jsval) \<Rightarrow> patch_error + (jsval \<times> jsval)" where
  "put_back f r = (case r of Inl e \<Rightarrow> Inl e | Inr (child, res) \<Rightarrow> Inr (f child, res))"

subsection \<open>Walking the path\<close>

text \<open>
  The \<open>while (true)\<close> loop of \<open>applyOperation\<close> from the current object \<open>obj\<close> on,
  with the keys still to go, the key before them (\<open>keys[t - 1]\<close>), and \<open>vld\<close> set
  when the call validates. Each round unescapes the key, refuses a prototype key,
  and either performs the operation (no key left) or steps into \<open>obj[key]\<close>; under
  validation a step into anything but an object or array is
  \<open>OPERATION_PATH_UNRESOLVABLE\<close>. The callback's second run inside the loop is left
  out: it is the same callback on the same operation as the run before the loop.
  The changed child is put back where it was read, which is what mutation in place
  amounts to.
\<close>

fun walk ::
  "bool \<Rightarrow> opname \<Rightarrow> jsval \<Rightarrow> string \<Rightarrow> string list \<Rightarrow> jsval \<Rightarrow> patch_error + (jsval \<times> jsval)" where
  "walk vld opn v prev [] obj = Inl TypeError"
| "walk vld opn v prev (k # ks) obj =
     (let key = unescapePathComponent k in
      if key = ''__proto__'' \<or> (key = ''prototype'' \<and> prev = ''constructor'') then Inl TypeError
      else (case obj of
        JUndefined \<Rightarrow> Inl TypeError
      | JNull \<Rightarrow> Inl TypeError
      | JObj kvs \<Rightarrow>
          if ks = [] then obj_final opn v kvs key
          else if vld \<and> \<not> is_container (own_prop kvs key)
          then Inl (JsonPatchError ''OPERATION_PATH_UNRESOLVABLE'')
          else put_back (\<lambda>child. JObj (set_prop kvs key child))
                 (walk vld opn v k ks (own_prop kvs key))
      | JArr xs \<Rightarrow>
          (case arr_index vld key xs of
             Inl e \<Rightarrow> Inl e
           | Inr None \<Rightarrow>
               if ks = [] then arr_final_named opn v xs key
               else put_back (\<lambda>child. JArr xs) (walk vld opn v k ks (optGet (JArr xs) key))
           | Inr (Some i) \<Rightarrow>
               if ks = [] then arr_final vld opn v xs i
               else if vld \<and> \<not> is_container (arr_get xs i)
               then Inl (JsonPatchError ''OPERATION_PATH_UNRESOLVABLE'')
               else put_back (\<lambda>child. JArr (if 0 \<le> i \<and> nat i < length xs
                                              then xs[nat i := child] else xs))
                      (walk vld opn v k ks (arr_get xs i)))
      | _ \<Rightarrow>
          if ks = [] then prim_final opn v obj key
          else if vld then Inl (JsonPatchError ''OPERATION_PATH_UNRESOLVABLE'')
          else put_back (\<lambda>child. obj) (walk vld opn v k ks (optGet obj key))))"

text \<open>
  \<open>path.split('/')\<close> and the start of the loop at index 1. A path without a slash has
  no key at index 1: the key is \<open>undefined\<close>, which names the property
  \<open>"undefined"\<close> of an object and makes \<open>isInteger\<close> throw on an array.
\<close>

definition walk_path ::
  "bool \<Rightarrow> opname \<Rightarrow> jsval \<Rightarrow> string \<Rightarrow> jsval \<Rightarrow> patch_error + (jsval \<times> jsval)" where
  "walk_path vld opn v path doc =
     (case split_on CHR ''/'' path of
        [] \<Rightarrow> Inl TypeError
      | k0 # ks \<Rightarrow>
          if ks = [] then (case doc of JArr _ \<Rightarrow> Inl TypeError
                           | _ \<Rightarrow> walk vld opn v k0 [''undefined''] doc)
          else walk vld opn v k0 ks doc)"

text \<open>\<open>getValueByPointer\<close>.\<close>

definition getValueByPointer :: "jsval \<Rightarrow> string \<Rightarrow> patch_error + jsval" where
  "getValueByPointer doc pointer =
     (if pointer = [] then Inr doc
      else (case walk_path False Get JUndefined pointer doc of
              Inl e \<Rightarrow> Inl e
            | Inr (d, v) \<Rightarrow> Inr v))"

subsection \<open>One operation on a document\<close>

text \<open>
  An operation with a path other than the empty one, on the document \<open>doc\<close>: the
  document afterwards, and the error or the value handed back. Add, remove, replace,
  test and \<open>_get\<close> are one walk, which changes nothing when it throws. Move walks to
  the target (where \<open>objOps.move\<close> is called), then removes at \<open>from\<close> and adds at the
  path, both without validation; when the add throws the removal stays. Copy reads
  at \<open>from\<close> and adds a deep clone.
\<close>

definition apply_in :: "bool \<Rightarrow> patchop \<Rightarrow> jsval \<Rightarrow> jsval \<times> (patch_error + jsval)" where
  "apply_in vld p doc =
     (if op_name p = Move then
        (case walk_path vld Move JUndefined (op_path p) doc of
           Inl e \<Rightarrow> (doc, Inl e)
         | Inr _ \<Rightarrow>
            if op_from p = [] then (doc, Inl TypeError)
            else (case walk_path False Remove JUndefined (op_from p) doc of
               Inl e \<Rightarrow> (doc, Inl e)
             | Inr (doc1, removed) \<Rightarrow>
                (case walk_path False Add removed (op_path p) doc1 of
                   Inl e \<Rightarrow> (doc1, Inl e)
                 | Inr (doc2, r) \<Rightarrow> (doc2, Inr JUndefined))))
      else if op_name p = Copy then
        (case walk_path vld Copy JUndefined (op_path p) doc of
           Inl e \<Rightarrow> (doc, Inl e)
         | Inr _ \<Rightarrow>
            (case getValueByPointer doc (op_from p) of
               Inl e \<Rightarrow> (doc, Inl e)
             | Inr valueToCopy \<Rightarrow>
                (case walk_path False Add (deepClone valueToCopy) (op_path p) doc of
                   Inl e \<Rightarrow> (doc, Inl e)
                 | Inr (doc2, r) \<Rightarrow> (doc2, Inr JUndefined))))
      else
        (case walk_path vld (op_name p) (op_value p) (op_path p) doc of
           Inl e \<Rightarrow> (doc, Inl e)
         | Inr (doc2, r) \<Rightarrow> (doc2, Inr r)))"

subsection \<open>The document of a run\<close>

text \<open>
  \<open>applyPatch\<close> starts with the task as its document and after each operation
  continues with the \<open>newDocument\<close> the operation returned. That is the same object
  unless the operation had the empty path: an add, replace or remove at the root
  puts a value of the request (or \<open>null\<close>) in the document's place and leaves the
  task alone from then on (\<open>Detached\<close>); a move or copy at the root continues with the
  value found at \<open>from\<close>, which is a part of the task when it is an object or array
  (\<open>Within\<close>, with the keys that lead to it) and a detached value otherwise.
\<close>

datatype docref = Within "string list" | Detached jsval

definition pointer_keys :: "string \<Rightarrow> string list" where
  "pointer_keys pointer =
     (case split_on CHR ''/'' pointer of
        [] \<Rightarrow> []
      | k0 # ks \<Rightarrow> if ks = [] then [''undefined''] else ks)"

text \<open>Run \<open>f\<close> on the part of \<open>d\<close> that the keys lead to, and put what it leaves back
  in place.\<close>

fun at_path ::
  "string list \<Rightarrow> (jsval \<Rightarrow> jsval \<times> (patch_error + jsval)) \<Rightarrow> jsval
     \<Rightarrow> jsval \<times> (patch_error + jsval)" where
  "at_path [] f d = f d"
| "at_path (k # ks) f d =
     (case d of
        JObj kvs \<Rightarrow>
          if is_container (own_prop kvs (unescapePathComponent k))
          then (case at_path ks f (own_prop kvs (unescapePathComponent k)) of
                  (child, r) \<Rightarrow> (JObj (set_prop kvs (unescapePathComponent k) child), r))
          else (d, Inl TypeError)
      | JArr xs \<Rightarrow>
          (case arr_index False (unescapePathComponent k) xs of
             Inr (Some i) \<Rightarrow>
               if is_container (arr_get xs i)
               then (case at_path ks f (arr_get xs i) of
                       (child, r) \<Rightarrow> (JArr (xs[nat i := child]), r))
               else (d, Inl TypeError)
           | _ \<Rightarrow> (d, Inl TypeError))
      | _ \<Rightarrow> (d, Inl TypeError))"

text \<open>The current document as a value.\<close>

definition document_of :: "jsval \<Rightarrow> docref \<Rightarrow> patch_error + jsval" where
  "document_of task ref =
     (case ref of
        Detached d \<Rightarrow> Inr d
      | Within ks \<Rightarrow> snd (at_path ks (\<lambda>d. (d, Inr d)) task))"

text \<open>An operation with the empty path (the root operations of \<open>applyOperation\<close>).\<close>

definition root_op :: "patchop \<Rightarrow> jsval \<times> docref \<Rightarrow> (jsval \<times> docref) \<times> patch_error option" where
  "root_op p st =
     (case op_name p of
        Add \<Rightarrow> ((fst st, Detached (op_value p)), None)
      | Replace \<Rightarrow> ((fst st, Detached (op_value p)), None)
      | Remove \<Rightarrow> ((fst st, Detached JNull), None)
      | Get \<Rightarrow> (st, None)
      | Unknown n \<Rightarrow> (st, Some (JsonPatchError ''OPERATION_OP_INVALID''))
      | Test \<Rightarrow>
          (case document_of (fst st) (snd st) of
             Inl e \<Rightarrow> (st, Some e)
           | Inr d \<Rightarrow> if areEquals d (op_value p) then (st, None)
                      else (st, Some (JsonPatchError ''TEST_OPERATION_FAILED'')))
      | _ \<Rightarrow>
          if op_from p = [] then (st, None)
          else (case document_of (fst st) (snd st) of
             Inl e \<Rightarrow> (st, Some e)
           | Inr d \<Rightarrow>
              (case getValueByPointer d (op_from p) of
                 Inl e \<Rightarrow> (st, Some e)
               | Inr v \<Rightarrow>
                  (case snd st of
                     Within ks \<Rightarrow>
                       if is_container v
                       then ((fst st, Within (ks @ pointer_keys (op_from p))), None)
                       else ((fst st, Detached v), None)
                   | Detached d0 \<Rightarrow> ((fst st, Detached v), None)))))"

subsection \<open>The broker's validator callback and the run over the batch\<close>

text \<open>
  The callback of \<open>Server.patchJob\<close> (lines 130 to 146). \<open>Task.canSet\<close> lives in
  \<open>task.ts\<close>, which is not among the sources, so it is the parameter \<open>canSet\<close>; its
  first argument is the second piece of the path split at slashes, \<open>undefined\<close>
  (\<open>None\<close>) when the path has no slash, and its second argument is the operation's
  value, replaced by \<open>undefined\<close> when it is falsy.
\<close>

definition mutating :: "opname \<Rightarrow> bool" where
  "mutating opn = (opn = Add \<or> opn = Copy \<or> opn = Move \<or> opn = Remove \<or> opn = Replace)"

fun truthy :: "jsval \<Rightarrow> bool" where
  "truthy JUndefined = False"
| "truthy JNull = False"
| "truthy (JBool b) = b"
| "truthy (JNum n) = (n \<noteq> 0)"
| "truthy (JStr s) = (s \<noteq> [])"
| "truthy (JArr xs) = True"
| "truthy (JObj kvs) = True"

definition path_prop :: "string \<Rightarrow> string option" where
  "path_prop path =
     (case split_on CHR ''/'' path of k0 # k1 # ks \<Rightarrow> Some k1 | _ \<Rightarrow> None)"

definition validator :: "(string option \<Rightarrow> jsval \<Rightarrow> bool) \<Rightarrow> patchop \<Rightarrow> patch_error option" where
  "validator canSet p =
     (if \<not> mutating (op_name p) then None
      else if canSet (path_prop (op_path p)) (if truthy (op_value p) then op_value p else JUndefined)
      then None
      else Some (JsonPatchError ''OPERATION_OP_INVALID''))"

text \<open>\<open>applyOperation\<close> with the callback: the callback first, then the operation
  on the current document.\<close>

definition applyOperation ::
  "(string option \<Rightarrow> jsval \<Rightarrow> bool) \<Rightarrow> patchop \<Rightarrow> jsval \<times> docref
     \<Rightarrow> (jsval \<times> docref) \<times> patch_error option" where
  "applyOperation canSet p st =
     (case validator canSet p of
        Some e \<Rightarrow> (st, Some e)
      | None \<Rightarrow>
          if op_path p = [] then root_op p st
          else (case snd st of
                  Detached d \<Rightarrow>
                    (case apply_in True p d of
                       (d2, Inl e) \<Rightarrow> ((fst st, Detached d2), Some e)
                     | (d2, Inr r) \<Rightarrow> ((fst st, Detached d2), None))
                | Within ks \<Rightarrow>
                    (case at_path ks (apply_in True p) (fst st) of
                       (task2, Inl e) \<Rightarrow> ((task2, Within ks), Some e)
                     | (task2, Inr r) \<Rightarrow> ((task2, Within ks), None))))"

text \<open>The loop of \<open>applyPatch\<close>: it stops at the first exception, with the document
  as the operations before it left it.\<close>

fun applyPatch_from ::
  "(string option \<Rightarrow> jsval \<Rightarrow> bool) \<Rightarrow> jsval \<times> docref \<Rightarrow> patchop list
     \<Rightarrow> (jsval \<times> docref) \<times> patch_error option" where
  "applyPatch_from canSet st [] = (st, None)"
| "applyPatch_from canSet st (p # ps) =
     (case applyOperation canSet p st of
        (st2, Some e) \<Rightarrow> (st2, Some e)
      | (st2, None) \<Rightarrow> applyPatch_from canSet st2 ps)"

text \<open>\<open>jsonpatch.applyPatch(task, req.body, callback)\<close>: the task afterwards and the
  exception, if one was thrown.\<close>

definition applyPatch ::
  "(string option \<Rightarrow> jsval \<Rightarrow> bool) \<Rightarrow> jsval \<Rightarrow> patchop list \<Rightarrow> jsval \<times> patch_error option" where
  "applyPatch canSet task patch =
     (case applyPatch_from canSet (task, Within []) patch of (st, err) \<Rightarrow> (fst st, err))"

section \<open>The broker's job endpoints\<close>

text \<open>\<open>JSON.stringify\<close>.\<close>

definition hex_digit :: "nat \<Rightarrow> char" where
  "hex_digit n = (if n < 10 then char_of (48 + n) else char_of (87 + n))"

definition quote_char :: "char \<Rightarrow> string" where
  "quote_char c =
     (if c = CHR 0x22 then [CHR 0x5C, CHR 0x22]
      else if c = CHR 0x5C then [CHR 0x5C, CHR 0x5C]
      else if c = CHR 0x08 then [CHR 0x5C, CHR ''b'']
      else if c = CHR 0x09 then [CHR 0x5C, CHR ''t'']
      else if c = CHR 0x0A then [CHR 0x5C, CHR ''n'']
      else if c = CHR 0x0C then [CHR 0x5C, CHR ''f'']
      else if c = CHR 0x0D then [CHR 0x5C, CHR ''r'']
      else if (of_char c :: nat) < 32
      then [CHR 0x5C, CHR ''u'', CHR ''0'', CHR ''0'',
            hex_digit ((of_char c :: nat) div 16), hex_digit ((of_char c :: nat) mod 16)]
      else [c])"

definition quote :: "string \<Rightarrow> string" where
  "quote s = [CHR 0x22] @ concat (map quote_char s) @ [CHR 0x22]"

fun JSON_stringify :: "jsval \<Rightarrow> string" where
  "JSON_stringify JUndefined = ''undefined''"
| "JSON_stringify JNull = ''null''"
| "JSON_stringify (JBool b) = (if b then ''true'' else ''false'')"
| "JSON_stringify (JNum n) = show_int n"
| "JSON_stringify (JStr s) = quote s"
| "JSON_stringify (JArr xs) =
     ''['' @ join '','' (map (\<lambda>x. if x = JUndefined then ''null'' else JSON_stringify x) xs) @ '']''"
| "JSON_stringify (JObj kvs) =
     ''{'' @ join '','' (map (\<lambda>(k, v). quote k @ '':'' @ JSON_stringify v)
                          (filter (\<lambda>(k, v). v \<noteq> JUndefined) kvs)) @ ''}''"

text \<open>
  What the handlers take from outside this file: \<open>Task.canSet\<close> and
  \<open>Task.publicSubset\<close> (both of \<open>task.ts\<close>, which is not among the sources) and the
  \<open>etag\<close> package's hash of a body. The statements below hold for every choice of the
  three unless they say otherwise.
\<close>

record deps =
  canSet :: "string option \<Rightarrow> jsval \<Rightarrow> bool"
  publicSubset :: "jsval \<Rightarrow> jsval"
  create_etag :: "string \<Rightarrow> string"

text \<open>\<open>getTaskBody\<close>.\<close>

definition getTaskBody :: "deps \<Rightarrow> jsval \<Rightarrow> string \<times> string" where
  "getTaskBody D task =
     (let body = JSON_stringify (publicSubset D task) in (body, create_etag D body))"

text \<open>\<open>task.etag\<close> and \<open>task.etag = e\<close> on the task object.\<close>

definition stored_etag :: "jsval \<Rightarrow> jsval" where
  "stored_etag task = optGet task ''etag''"

definition store_etag :: "jsval \<Rightarrow> string \<Rightarrow> jsval" where
  "store_etag task e =
     (case task of JObj kvs \<Rightarrow> JObj (set_prop kvs ''etag'' (JStr e)) | _ \<Rightarrow> task)"

definition unknown_job :: "string \<Rightarrow> response" where
  "unknown_job jid =
     \<lparr>status_code = 404, resp_headers = [],
      resp_body = ''Unknown job '' @ [CHR 0x27] @ jid @ [CHR 0x27]\<rparr>"

text \<open>
  \<open>Server.getJob\<close> on the task that the broker holds under the id: the response and
  the task afterwards.
\<close>

definition getJob_task :: "deps \<Rightarrow> jsval \<Rightarrow> response \<times> jsval" where
  "getJob_task D task =
     (case getTaskBody D task of
        (body, e) \<Rightarrow>
          (\<lparr>status_code = 200,
            resp_headers = [(lower ''ETag'', e), (lower ''Content-Type'', ''application/json'')],
            resp_body = body\<rparr>,
           store_etag task e))"

text \<open>
  \<open>Server.patchJob\<close> on the task that the broker holds under the id (lines 120 to
  154). \<open>precondition_failed\<close> is the condition of line 122: the request has a
  non-empty \<open>If-Match\<close> header that differs from \<open>task.etag\<close>. The task is patched
  in place, so what the run over the batch leaves is what the broker holds afterwards,
  whether the run ended in an exception or not. The body of a 400 response (the
  serialised exception) is not modelled.
\<close>

definition precondition_failed :: "request \<Rightarrow> jsval \<Rightarrow> bool" where
  "precondition_failed req task =
     (case req_header req ''If-Match'' of
        None \<Rightarrow> False
      | Some if_etag \<Rightarrow> if_etag \<noteq> [] \<and> JStr if_etag \<noteq> stored_etag task)"

definition patchJob_task :: "deps \<Rightarrow> request \<Rightarrow> jsval \<Rightarrow> response \<times> jsval" where
  "patchJob_task D req task =
     (if precondition_failed req task
      then (\<lparr>status_code = 412, resp_headers = [],
             resp_body = ''Invalid If-Match header: '' @ the (req_header req ''If-Match'')\<rparr>, task)
      else (case applyPatch (canSet D) task (req_body req) of
              (task2, Some err) \<Rightarrow>
                (\<lparr>status_code = 400, resp_headers = [], resp_body = []\<rparr>, task2)
            | (task2, None) \<Rightarrow>
                (\<lparr>status_code = 200,
                  resp_headers = [(lower ''ETag'', snd (getTaskBody D task2))],
                  resp_body = []\<rparr>, task2)))"

text \<open>
  Modelled from the spec: the \<open>Broker\<close> class (\<open>broker.ts\<close>) is not among the
  sources. Section 4.1 describes the store as an in-memory mapping from job id to job
  record; \<open>getTask\<close> is the only method the two handlers call.
\<close>

type_synonym broker = "string \<Rightarrow> jsval option"

definition Server_getJob :: "deps \<Rightarrow> broker \<Rightarrow> string \<Rightarrow> response \<times> broker" where
  "Server_getJob D b jid =
     (case b jid of
        None \<Rightarrow> (unknown_job jid, b)
      | Some task \<Rightarrow> (case getJob_task D task of (resp, task2) \<Rightarrow> (resp, b(jid \<mapsto> task2))))"

definition Server_patchJob :: "deps \<Rightarrow> broker \<Rightarrow> request \<Rightarrow> response \<times> broker" where
  "Server_patchJob D b req =
     (case b (req_id req) of
        None \<Rightarrow> (unknown_job (req_id req), b)
      | Some task \<Rightarrow>
          (case patchJob_task D req task of (resp, task2) \<Rightarrow> (resp, b(req_id req \<mapsto> task2))))"

section \<open>Stand-ins for the concrete runs\<close>

text \<open>
  Modelled from the spec: \<open>Task.canSet\<close> is not among the sources. Section 4.3 names
  \<open>bot_client_data\<close> as the field a generic patch may set and \<open>current\<close>, \<open>last\<close>,
  \<open>history\<close>, \<open>id\<close> and \<open>etag\<close> as reserved.
\<close>

definition canSet_spec :: "string option \<Rightarrow> jsval \<Rightarrow> bool" where
  "canSet_spec field v = (field = Some ''bot_client_data'')"

text \<open>
  Modelled from the spec: \<open>Task.publicSubset\<close> is not among the sources. Section 4.4
  describes the public subset as the full record minus internal-only bookkeeping; here
  that is the record without its \<open>etag\<close> and its \<open>log\<close>.
\<close>

definition publicSubset_spec :: "jsval \<Rightarrow> jsval" where
  "publicSubset_spec task =
     (case task of
        JObj kvs \<Rightarrow> JObj (filter (\<lambda>p. fst p \<noteq> ''etag'' \<and> fst p \<noteq> ''log'') kvs)
      | _ \<Rightarrow> task)"

text \<open>
  A stand-in for the \<open>etag\<close> package, which tags a body with its length and a SHA-1
  digest: the stand-in tags a body with the body itself, so that, like the digest, it
  tells different bodies apart.
\<close>

definition create_etag_standin :: "string \<Rightarrow> string" where
  "create_etag_standin body = [CHR 0x22] @ body @ [CHR 0x22]"

definition deps_spec :: deps where
  "deps_spec =
     \<lparr>canSet = canSet_spec, publicSubset = publicSubset_spec, create_etag = create_etag_standin\<rparr>"

text \<open>An unclaimed bisect job as the broker holds it, not yet read by anyone.\<close>

definition task0 :: jsval where
  "task0 =
     JObj [(''id'', JStr ''j1''), (''type'', JStr ''bisect''),
           (''bisect_range'', JArr [JStr ''v1'', JStr ''v5'']), (''gist'', JStr ''g''),
           (''history'', JArr []), (''bot_client_data'', JObj [])]"

text \<open>An operation that Patch Authorization disallows: a mutating operation whose
  field and value \<open>Task.canSet\<close> refuses.\<close>

definition disallowed :: "deps \<Rightarrow> patchop \<Rightarrow> bool" where
  "disallowed D p =
     (mutating (op_name p)
      \<and> \<not> canSet D (path_prop (op_path p)) (if truthy (op_value p) then op_value p else JUndefined))"

definition replace_op :: "string \<Rightarrow> jsval \<Rightarrow> patchop" where
  "replace_op path v = \<lparr>op_name = Replace, op_path = path, op_from = [], op_value = v\<rparr>"

text \<open>A batch whose second operation is disallowed under \<open>canSet_spec\<close>.\<close>

definition mixed_batch :: request where
  "mixed_batch =
     \<lparr>req_id = ''j1'', req_headers = [],
      req_body = [replace_op ''/bot_client_data'' (JObj [(''a'', JNum 1)]),
                  replace_op ''/id'' (JStr ''x'')]\<rparr>"

text \<open>
  The first key of a JSON pointer, as the walk reads it, and the operations that
  address the task's own \<open>etag\<close> property: those whose path starts there, and the
  moves and copies whose \<open>from\<close> starts there.
\<close>

definition first_key :: "string \<Rightarrow> string" where
  "first_key pointer =
     (case pointer_keys pointer of [] \<Rightarrow> [] | k # ks \<Rightarrow> unescapePathComponent k)"

definition addresses_etag :: "patchop \<Rightarrow> bool" where
  "addresses_etag p =
     (first_key (op_path p) = ''etag''
      \<or> ((op_name p = Move \<or> op_name p = Copy) \<and> first_key (op_from p) = ''etag''))"

text \<open>
  What a run over a batch keeps when none of its operations addresses the \<open>etag\<close>
  property: the task is an object whose \<open>etag\<close> is \<open>e0\<close>, and the current document
  is the task, a part of the task below a property other than \<open>etag\<close>, or detached.
\<close>

definition keeps_etag :: "jsval \<Rightarrow> jsval \<times> docref \<Rightarrow> bool" where
  "keeps_etag e0 st =
     ((case fst st of JObj kvs \<Rightarrow> own_prop kvs ''etag'' = e0 | _ \<Rightarrow> False)
      \<and> (case snd st of
            Detached d \<Rightarrow> True
          | Within ks \<Rightarrow>
              (case ks of [] \<Rightarrow> True | k # rest \<Rightarrow> unescapePathComponent k \<noteq> ''etag'')))"

text \<open>
  A Patch Authorization that lets the runner's own patches through, as the real one
  must, since the runner claims and reports through \<open>Server.patchJob\<close>.
\<close>

definition canSet_protocol :: "string option \<Rightarrow> jsval \<Rightarrow> bool" where
  "canSet_protocol field v =
     (field = Some ''bot_client_data'' \<or> field = Some ''current''
      \<or> field = Some ''last'' \<or> field = Some ''history'')"

definition deps_runner :: deps where
  "deps_runner = deps_spec\<lparr>canSet := canSet_protocol\<rparr>"

text \<open>The job after a first read, and what the read returned as its etag.\<close>

definition read_task :: jsval where
  "read_task = snd (getJob_task deps_spec task0)"

definition etag_read :: string where
  "etag_read = snd (getTaskBody deps_spec task0)"

text \<open>An unconditional patch that changes the visible body, the job after it, and the
  etag of the job's body from then on.\<close>

definition good_patch :: request where
  "good_patch =
     \<lparr>req_id = ''j1'', req_headers = [],
      req_body = [replace_op ''/bot_client_data'' (JObj [(''a'', JNum 1)])]\<rparr>"

definition patched_task :: jsval where
  "patched_task = snd (patchJob_task deps_spec good_patch read_task)"

definition etag_patched :: string where
  "etag_patched = snd (getTaskBody deps_spec patched_task)"

text \<open>A patch conditioned on the etag \<open>e\<close>.\<close>

definition conditional_patch :: "string \<Rightarrow> request" where
  "conditional_patch e =
     \<lparr>req_id = ''j1'', req_headers = [(lower ''If-Match'', e)],
      req_body = [replace_op ''/bot_client_data'' (JObj [(''b'', JNum 2)])]\<rparr>"

text \<open>Two workers that have both fetched the unclaimed job and its etag.\<close>

definition worker_A :: runner where
  "worker_A = poll_fetched (worker0\<lparr>uuid := ''A''\<rparr>) [(''id'', JStr ''j1'')] etag_read 10"

definition worker_B :: runner where
  "worker_B = poll_fetched (worker0\<lparr>uuid := ''B''\<rparr>) [(''id'', JStr ''j1'')] etag_read 11"

text \<open>The job while worker A holds it, and worker A with an etag that is not the
  job's.\<close>

definition claimed_task :: jsval where
  "claimed_task =
     snd (patchJob_task deps_runner (Runner_patchJob worker_A (claim_patches worker_A)) read_task)"

definition worker_stale :: runner where
  "worker_stale = worker_A\<lparr>etag := Some ''stale''\<rparr>"

section \<open>Jobs as the list endpoint sees them\<close>

text \<open>
  Modelled from the spec: the job interfaces (\<open>bugbot-shared/lib/interfaces\<close>) are not
  among the sources. By section 3 a job's \<open>platform\<close> is absent or a platform name,
  its \<open>current\<close> is absent or a claim record whose \<open>runner\<close> is a runner id (a
  string), its \<open>last\<close> is absent or a Result whose \<open>status\<close> is one of
  \<open>success\<close>, \<open>test_error\<close> and \<open>system_error\<close>, and its \<open>type\<close> is a string.
  \<open>job_typed\<close> says that of what reading those fields of a job object gives; the
  object may have any other fields.
\<close>

definition field :: "'x lang \<Rightarrow> jsval \<Rightarrow> string \<Rightarrow> 'x walked" where
  "field L j k = memberGet L (Data j) k"

definition job_typed :: "'x lang \<Rightarrow> jsval \<Rightarrow> bool" where
  "job_typed L j =
     ((case field L j ''platform'' of
         Data JUndefined \<Rightarrow> True | Data (JStr p) \<Rightarrow> True | _ \<Rightarrow> False)
      \<and> (case field L j ''current'' of
            Data JUndefined \<Rightarrow> True
          | Data (JObj c) \<Rightarrow>
              (case field L (JObj c) ''runner'' of Data (JStr u) \<Rightarrow> True | _ \<Rightarrow> False)
          | _ \<Rightarrow> False)
      \<and> (case field L j ''last'' of
            Data JUndefined \<Rightarrow> True
          | Data (JObj l) \<Rightarrow> field L (JObj l) ''status'' = Data (JStr ''success'')
                       \<or> field L (JObj l) ''status'' = Data (JStr ''test_error'')
                       \<or> field L (JObj l) ''status'' = Data (JStr ''system_error'')
          | _ \<Rightarrow> False)
      \<and> (case field L j ''type'' of Data (JStr t) \<Rightarrow> True | _ \<Rightarrow> False))"

text \<open>Available for claim, as the claim words it, for a worker on platform \<open>w\<close>.\<close>

definition available_claimed :: "'x lang \<Rightarrow> string \<Rightarrow> jsval \<Rightarrow> bool" where
  "available_claimed L w j =
     ((field L j ''platform'' = Data (JStr w) \<or> field L j ''platform'' = Data JUndefined)
      \<and> field L j ''current'' = Data JUndefined
      \<and> field L j ''last'' = Data JUndefined
      \<and> field L j ''type'' = Data (JStr ''bisect''))"

text \<open>
  What the runner's query selects: as above, except that the literal string
  \<open>"undefined"\<close> as the job's platform or as the id of the runner that holds the job
  passes for an unset field.
\<close>

definition offered :: "'x lang \<Rightarrow> string \<Rightarrow> jsval \<Rightarrow> bool" where
  "offered L w j =
     ((field L j ''platform'' = Data (JStr w) \<or> field L j ''platform'' = Data JUndefined
         \<or> field L j ''platform'' = Data (JStr ''undefined''))
      \<and> (field L j ''current'' = Data JUndefined
         \<or> memberGet L (field L j ''current'') ''runner'' = Data (JStr ''undefined''))
      \<and> field L j ''last'' = Data JUndefined
      \<and> field L j ''type'' = Data (JStr ''bisect''))"

text \<open>A job held by a runner whose id is the string \<open>"undefined"\<close>.\<close>

definition held_job :: jsval where
  "held_job =
     JObj [(''id'', JStr ''j9''), (''type'', JStr ''bisect''),
           (''current'', JObj [(''runner'', JStr ''undefined''), (''time_begun'', JNum 5)])]"

text \<open>A job held by an ordinary runner.\<close>

definition busy_job :: jsval where
  "busy_job =
     JObj [(''id'', JStr ''j2''), (''type'', JStr ''bisect''),
           (''current'', JObj [(''runner'', JStr ''w1''), (''time_begun'', JNum 7)])]"

section \<open>The worker loop as the event loop runs it\<close>

text \<open>
  \<open>poll\<close> is an \<open>async\<close> function: it runs until its next \<open>await\<close> and continues
  when the awaited request is answered or the child process closes; in between the
  event loop is free to run the interval timer's callback. The state of a worker is
  the runner's fields, whether the interval timer is set, the stage of every \<open>poll\<close>
  invocation started so far, and the requests sent so far. A stage names the
  \<open>await\<close> the invocation is parked at: the list request (line 87), the job request
  (line 94), the claim (line 104, with the local \<open>job\<close>), the child process inside
  \<open>runBisect\<close> (line 108), the report sent by the \<open>close\<close> handler (line 251).
  \<open>Settled\<close> is an invocation whose promise has been fulfilled or rejected (the
  rejection is caught and logged by \<open>pollSafely\<close>); \<open>Stuck\<close> is an invocation whose
  report failed, so that \<open>runBisect\<close> never resolves. Log uploads are left out.
\<close>

datatype poll_stage =
    ListPending
  | JobPending string
  | ClaimPending "(string \<times> jsval) list"
  | ChildRunning
  | ReportPending
  | Stuck
  | Settled

datatype outgoing =
    GetJobs "(string \<times> string) list"
  | GetJobBody string
  | PatchJob request

record worker =
  self :: runner
  timer :: bool
  polls :: "poll_stage list"
  sent :: "outgoing list"

text \<open>
  What the event loop delivers: calls of \<open>start\<close> and \<open>stop\<close>, a firing of the
  interval timer, and for the invocation with a given number the answer to its list
  request (the ids), to its job request (the parsed job, the etag header, empty when
  missing, and the clock), to its pending patch (the response), the failure of its
  pending request, and the \<open>close\<close> event of its child (the chunks of standard
  output, the exit code, the clock).
\<close>

datatype event =
    Start
  | Stop
  | TimerFired
  | JobsListed nat "string list"
  | JobFetched nat "(string \<times> jsval) list" string int
  | PatchAnswered nat response
  | RequestFailed nat
  | ChildClosed nat "string list" "int option" int

text \<open>\<open>pollSafely\<close>: a new invocation of \<open>poll\<close>, which sends the list request.
  Nothing is checked before it starts.\<close>

definition pollSafely :: "worker \<Rightarrow> worker" where
  "pollSafely w =
     w\<lparr>polls := polls w @ [ListPending],
       sent := sent w @ [GetJobs (fetchAvailableJobs (self w))]\<rparr>"

text \<open>The end of \<open>poll\<close> (lines 116 to 118) for invocation \<open>i\<close>.\<close>

definition cleanup :: "nat \<Rightarrow> worker \<Rightarrow> worker" where
  "cleanup i w =
     w\<lparr>self := (self w)\<lparr>etag := None, jobId := JUndefined, timeBegun := None\<rparr>,
       polls := (polls w)[i := Settled]\<rparr>"

definition stage :: "worker \<Rightarrow> nat \<Rightarrow> poll_stage" where
  "stage w i = (if i < length (polls w) then polls w ! i else Settled)"

definition step :: "(string \<Rightarrow> string + bisect_output) \<Rightarrow> worker \<Rightarrow> event \<Rightarrow> worker" where
  "step parser w ev =
     (case ev of
        Start \<Rightarrow> pollSafely (w\<lparr>timer := True\<rparr>)
      | Stop \<Rightarrow> w\<lparr>timer := False\<rparr>
      | TimerFired \<Rightarrow> if timer w then pollSafely w else w
      | JobsListed i ids \<Rightarrow>
          (case stage w i of
             ListPending \<Rightarrow>
               (case ids of
                  [] \<Rightarrow> w\<lparr>polls := (polls w)[i := Settled]\<rparr>
                | jid # rest \<Rightarrow>
                    if jid = [] then w\<lparr>polls := (polls w)[i := Settled]\<rparr>
                    else w\<lparr>polls := (polls w)[i := JobPending jid],
                           sent := sent w @ [GetJobBody jid]\<rparr>)
           | _ \<Rightarrow> w)
      | JobFetched i job initialEtag now \<Rightarrow>
          (case stage w i of
             JobPending jid \<Rightarrow>
               if initialEtag = [] then w\<lparr>polls := (polls w)[i := Settled]\<rparr>
               else w\<lparr>self := poll_fetched (self w) job initialEtag now,
                      polls := (polls w)[i := ClaimPending job],
                      sent := sent w @
                        [PatchJob (Runner_patchJob (poll_fetched (self w) job initialEtag now)
                           (claim_patches (poll_fetched (self w) job initialEtag now)))]\<rparr>
           | _ \<Rightarrow> w)
      | PatchAnswered i resp \<Rightarrow>
          (case stage w i of
             ClaimPending job \<Rightarrow>
               (case Runner_patchJob_done (self w) resp of
                  Inl e \<Rightarrow> w\<lparr>polls := (polls w)[i := Settled]\<rparr>
                | Inr f \<Rightarrow>
                    if own_prop job ''type'' = JStr ''bisect''
                    then w\<lparr>self := f, polls := (polls w)[i := ChildRunning]\<rparr>
                    else cleanup i (w\<lparr>self := f\<rparr>))
           | ReportPending \<Rightarrow>
               (case Runner_patchJob_done (self w) resp of
                  Inl e \<Rightarrow> w\<lparr>polls := (polls w)[i := Stuck]\<rparr>
                | Inr f \<Rightarrow> cleanup i (w\<lparr>self := f\<rparr>))
           | _ \<Rightarrow> w)
      | RequestFailed i \<Rightarrow>
          (case stage w i of
             ListPending \<Rightarrow> w\<lparr>polls := (polls w)[i := Settled]\<rparr>
           | JobPending jid \<Rightarrow> w\<lparr>polls := (polls w)[i := Settled]\<rparr>
           | ClaimPending job \<Rightarrow> w\<lparr>polls := (polls w)[i := Settled]\<rparr>
           | ReportPending \<Rightarrow> w\<lparr>polls := (polls w)[i := Stuck]\<rparr>
           | _ \<Rightarrow> w)
      | ChildClosed i out exitCode now \<Rightarrow>
          (case stage w i of
             ChildRunning \<Rightarrow>
               w\<lparr>polls := (polls w)[i := ReportPending],
                 sent := sent w @
                   [PatchJob (Runner_patchResult (self w) now (on_close parser out exitCode))]\<rparr>
           | _ \<Rightarrow> w))"

definition run :: "(string \<Rightarrow> string + bisect_output) \<Rightarrow> worker \<Rightarrow> event list \<Rightarrow> worker" where
  "run parser w evs = foldl (step parser) w evs"

text \<open>The invocations of \<open>poll\<close> that are in flight, and those that hold a claimed
  job whose child process is running.\<close>

definition in_flight :: "worker \<Rightarrow> nat" where
  "in_flight w = length (filter (\<lambda>s. s \<noteq> Settled) (polls w))"

definition executing :: "worker \<Rightarrow> nat" where
  "executing w = length (filter (\<lambda>s. s = ChildRunning) (polls w))"

definition idle :: worker where
  "idle = \<lparr>self = worker0, timer = False, polls = [], sent = []\<rparr>"

text \<open>The claim, as stated: at every moment of every run at most one invocation is in
  flight.\<close>

definition one_at_a_time :: "(string \<Rightarrow> string + bisect_output) \<Rightarrow> event list \<Rightarrow> bool" where
  "one_at_a_time parser evs = list_all (\<lambda>n. in_flight (run parser idle (take n evs)) \<le> 1) [0 ..< Suc (length evs)]"

text \<open>
  A run in which the timer fires while the first job's child process is still
  running: the answers let both invocations claim a job.
\<close>

definition ok_response :: "string \<Rightarrow> response" where
  "ok_response e = \<lparr>status_code = 200, resp_headers = [(''etag'', e)], resp_body = []\<rparr>"

definition overlapping_run :: "event list" where
  "overlapping_run =
     [Start,
      JobsListed 0 [''j1''],
      JobFetched 0 [(''id'', JStr ''j1''), (''type'', JStr ''bisect'')] ''e1'' 10,
      PatchAnswered 0 (ok_response ''e1b''),
      TimerFired,
      JobsListed 1 [''j2''],
      JobFetched 1 [(''id'', JStr ''j2''), (''type'', JStr ''bisect'')] ''e2'' 30,
      PatchAnswered 1 (ok_response ''e2b'')]"

text \<open>The ids of the jobs that the patches sent so far were addressed to.\<close>

definition patched_ids :: "worker \<Rightarrow> string list" where
  "patched_ids w =
     concat (map (\<lambda>out. case out of PatchJob req \<Rightarrow> [req_id req] | _ \<Rightarrow> []) (sent w))"


section \<open>Properties of the filter\<close>

lemma memberGet_undefined_walk: "foldl (memberGet L) (Data JUndefined) ns = Data JUndefined"
  by (induction ns) simp_all

lemma resolve_spec_walk:
  "resolve_spec L w ns =
     (if foldl (memberGet L) w ns = Data JUndefined then Data (JStr ''undefined'')
      else foldl (memberGet L) w ns)"
proof (induction ns arbitrary: w)
  case Nil
  show ?case by simp
next
  case (Cons n ns)
  show ?case
  proof (cases "w = Data JUndefined")
    case True
    then show ?thesis by (simp add: memberGet_undefined_walk)
  next
    case False
    then show ?thesis using Cons.IH [of "memberGet L w n"] by simp
  qed
qed

lemma list_ex_not_all: "list_ex P xs = (\<not> list_all (\<lambda>x. \<not> P x) xs)"
  by (induction xs) simp_all

lemma filter_entry_passes:
  "filter_entry L e cs =
     filter (\<lambda>c. key_passes L (filter (\<lambda>a. a \<noteq> []) (split_on CHR '','' (snd e))) (fst e)
                   (resolve_spec L (Data c) (key_path (fst e)))) cs"
  unfolding filter_entry_def key_passes_def key_path_def Let_def
  by (rule filter_cong) (auto simp: resolve_spec_walk list_ex_not_all)

lemma foldl_filter_entry:
  "foldl (\<lambda>st entry. st\<lparr>filtered := filter_entry L entry (filtered st)\<rparr>)
       \<lparr>beginning_set = b, filtered = cs\<rparr> q =
     \<lparr>beginning_set = b,
      filtered = filter (\<lambda>c. list_all (\<lambda>e. key_passes L
                (filter (\<lambda>a. a \<noteq> []) (split_on CHR '','' (snd e))) (fst e)
                (resolve_spec L (Data c) (key_path (fst e)))) q) cs\<rparr>"
proof (induction q arbitrary: cs)
  case Nil
  show ?case by simp
next
  case (Cons e q)
  let ?P = "\<lambda>e c. key_passes L (filter (\<lambda>a. a \<noteq> []) (split_on CHR '','' (snd e))) (fst e)
                (resolve_spec L (Data c) (key_path (fst e)))"
  let ?f = "\<lambda>st entry. st\<lparr>filtered := filter_entry L entry (filtered st)\<rparr>"
  have "foldl ?f \<lparr>beginning_set = b, filtered = cs\<rparr> (e # q) =
        foldl ?f \<lparr>beginning_set = b, filtered = filter_entry L e cs\<rparr> q"
    by simp
  also have "\<dots> = \<lparr>beginning_set = b,
        filtered = filter (\<lambda>c. list_all (\<lambda>e. ?P e c) q) (filter_entry L e cs)\<rparr>"
    by (rule Cons.IH)
  also have "\<dots> = \<lparr>beginning_set = b,
        filtered = filter (\<lambda>c. list_all (\<lambda>e. ?P e c) q) (filter (?P e) cs)\<rparr>"
    by (simp only: filter_entry_passes)
  also have "\<dots> = \<lparr>beginning_set = b,
        filtered = filter (\<lambda>c. list_all (\<lambda>e. ?P e c) (e # q)) cs\<rparr>"
    by (simp add: conj_commute)
  finally show ?case .
qed

lemma Server_filter_passes:
  "Server_filter L cs q =
     filter (\<lambda>c. list_all (\<lambda>e. key_passes L
                (filter (\<lambda>a. a \<noteq> []) (split_on CHR '','' (snd e))) (fst e)
                (resolve_spec L (Data c) (key_path (fst e)))) q) cs"
  unfolding Server_filter_def filter_run_def by (simp only: foldl_filter_entry simp_thms filter_state.simps)

lemma filter_run_keeps_argument: "beginning_set (filter_run L cs q) = cs"
  unfolding filter_run_def by (simp only: foldl_filter_entry filter_state.simps)

lemmas filter_example_defs =
  Server_filter_def filter_run_def filter_entry_def endsWith_def own_prop_def
  job_A_def job_B_def job_C_def

lemma filter_example_mac:
  "Server_filter L [job_A, job_B, job_C] [(''platform'', ''mac'')] = [job_A]"
  by (simp add: filter_example_defs)

lemma filter_example_mac_win:
  "Server_filter L [job_A, job_B, job_C] [(''platform'', ''mac,win'')] = [job_A, job_B]"
  by (simp add: filter_example_defs)

lemma filter_example_not_mac:
  "Server_filter L [job_A, job_B, job_C] [(''platform!'', ''mac'')] = [job_B, job_C]"
  by (simp add: filter_example_defs)

lemma filter_example_undefined:
  "Server_filter L [job_A, job_B, job_C] [(''platform'', ''undefined'')] = [job_C]"
  by (simp add: filter_example_defs)

lemma filter_example_inherited:
  "Server_filter proto_lang [job_A] [(''constructor.name'', ''Object'')] = [job_A]
   \<and> Server_filter proto_lang [job_A] [(''toString'', ''undefined'')] = []
   \<and> Server_filter proto_lang [job_A] [(''toString!'', ''undefined'')] = [job_A]"
  by (simp add: filter_example_defs proto_lang_def)

text \<open>
  Claim C7, as stated: a dotted key resolves through the candidate's nested fields, an
  absent field reads as the string \<open>"undefined"\<close>, and every comma-separated piece of
  a query value is an alternative. It fails in two places. Where a piece is empty: for
  the candidate \<open>{platform: ""}\<close> and the query \<open>platform=\<close> the only piece is the
  empty string, which the candidate's platform equals, so the claimed grammar lets the
  candidate pass; the code drops empty pieces and returns nothing. Where a key names
  something the candidate inherits: job A has no field \<open>constructor\<close>, so for the
  query \<open>constructor.name=Object\<close> the claimed grammar resolves the key to
  \<open>"undefined"\<close> and drops A, while the code reads the inherited \<open>constructor\<close>,
  whose \<open>name\<close> is \<open>"Object"\<close>, and keeps A; and for \<open>toString=undefined\<close> the
  claimed grammar keeps A while the code, which finds a function, drops it.
\<close>

theorem filter_empty_alternative_counterexample:
  "filter_claimed proto_lang [JObj [(''platform'', JStr '''')]] [(''platform'', '''')]
     = [JObj [(''platform'', JStr '''')]]
   \<and> Server_filter proto_lang [JObj [(''platform'', JStr '''')]] [(''platform'', '''')]
     = []
   \<and> filter_claimed proto_lang [job_A] [(''constructor.name'', ''Object'')] = []
   \<and> Server_filter proto_lang [job_A] [(''constructor.name'', ''Object'')] = [job_A]
   \<and> filter_claimed proto_lang [job_A] [(''toString'', ''undefined'')] = [job_A]
   \<and> Server_filter proto_lang [job_A] [(''toString'', ''undefined'')] = []"
  by (simp add: filter_example_defs proto_lang_def filter_claimed_def key_passes_def
      key_path_def)

text \<open>
  Claim C7, amended: for every candidate list and query, \<open>Server.filter\<close> keeps
  exactly the candidates that pass every query key, where each step of a dotted key is
  a member read of the value reached so far (an own field, or what the value inherits
  under that name), a step on \<open>undefined\<close> and a final \<open>undefined\<close> are read as
  the string \<open>"undefined"\<close>, a key without \<open>!\<close> passes when the resolved value
  loosely equals any non-empty comma-separated alternative, and a key with a trailing
  \<open>!\<close> passes only when it equals none of the non-empty alternatives. The argument
  array is the same after the call as before it. Over the jobs A, B and C of the
  specification, \<open>platform=mac\<close> gives A, \<open>platform=mac,win\<close> gives A and B,
  \<open>platform!=mac\<close> gives B and C, and \<open>platform=undefined\<close> gives C; and with
  the inherited properties of objects, \<open>constructor.name=Object\<close> keeps A,
  \<open>toString=undefined\<close> drops it and \<open>toString!=undefined\<close> keeps it.
\<close>

theorem Server_filter_grammar:
  "Server_filter L candidates query = filter_amended L candidates query
   \<and> beginning_set (filter_run L candidates query) = candidates
   \<and> Server_filter L [job_A, job_B, job_C] [(''platform'', ''mac'')] = [job_A]
   \<and> Server_filter L [job_A, job_B, job_C] [(''platform'', ''mac,win'')] = [job_A, job_B]
   \<and> Server_filter L [job_A, job_B, job_C] [(''platform!'', ''mac'')] = [job_B, job_C]
   \<and> Server_filter L [job_A, job_B, job_C] [(''platform'', ''undefined'')] = [job_C]
   \<and> Server_filter proto_lang [job_A] [(''constructor.name'', ''Object'')] = [job_A]
   \<and> Server_filter proto_lang [job_A] [(''toString'', ''undefined'')] = []
   \<and> Server_filter proto_lang [job_A] [(''toString!'', ''undefined'')] = [job_A]"
proof -
  have "Server_filter L candidates query = filter_amended L candidates query"
    unfolding filter_amended_def by (rule Server_filter_passes)
  then show ?thesis
    using filter_example_mac [of L] filter_example_mac_win [of L] filter_example_not_mac [of L]
      filter_example_undefined [of L] filter_example_inherited
      filter_run_keeps_argument [of L candidates query]
    by simp
qed

section \<open>Properties of the runner's report\<close>

lemma map_of_replace_prop:
  "map_of kvs k \<noteq> None \<Longrightarrow>
   map_of (replace_prop kvs k v) k' = (if k' = k then Some v else map_of kvs k')"
  by (induction kvs) auto

lemma map_of_insert_index:
  "map_of kvs k = None \<Longrightarrow>
   map_of (insert_index n k v kvs) k' = (if k' = k then Some v else map_of kvs k')"
  by (induction kvs) (auto split: option.splits)

lemma map_of_set_prop:
  "map_of (set_prop kvs k v) k' = (if k' = k then Some v else map_of kvs k')"
proof (cases "map_of kvs k")
  case None
  then show ?thesis
    by (auto simp: set_prop_def map_of_insert_index map_add_def split: option.splits)
next
  case (Some a)
  then have "map_of kvs k \<noteq> None" by simp
  from map_of_replace_prop [OF this] Some show ?thesis
    by (simp add: set_prop_def)
qed

lemma own_prop_set_prop:
  "own_prop (set_prop kvs k v) k' = (if k' = k then v else own_prop kvs k')"
  by (simp add: own_prop_def map_of_set_prop)

lemma own_prop_Object_assign:
  "own_prop (Object_assign t s) k =
     (case map_of (rev s) k of None \<Rightarrow> own_prop t k | Some v \<Rightarrow> v)"
  unfolding Object_assign_def
proof (induction s arbitrary: t)
  case Nil
  show ?case by simp
next
  case (Cons p s)
  show ?case
    by (cases p) (auto simp: Cons.IH own_prop_set_prop map_add_def split: option.splits)
qed

lemma own_prop_defaults:
  "own_prop (result_defaults r now) ''runner'' = JStr (uuid r)"
  "own_prop (result_defaults r now) ''status'' = JStr ''system_error''"
  "own_prop (result_defaults r now) ''time_begun'' = num_or_undefined (timeBegun r)"
  "own_prop (result_defaults r now) ''time_ended'' = JNum now"
  "own_prop (result_defaults r now) ''error'' = JUndefined"
  "own_prop (result_defaults r now) ''bisect_range'' = JUndefined"
  by (simp_all add: result_defaults_def own_prop_def)

text \<open>
  Claim C5: the Result that \<open>patchResult\<close> builds from what the \<open>close\<close> handler
  hands it has status \<open>success\<close> and the narrowed pair as \<open>bisect_range\<close> when the
  parser narrowed; when the parser could not narrow it has status \<open>test_error\<close> for
  exit code 1 and \<open>system_error\<close> for every other exit code (a missing one
  included); when the parser threw it has status \<open>system_error\<close> and the exception
  text as \<open>error\<close>. The Result built for the child's \<open>error\<close> event has status
  \<open>system_error\<close> and the error's text.
\<close>

theorem runBisect_classification:
  "own_prop (Runner_result r now (on_close parser out code)) ''status'' =
     (case parser (concat out) of
        Inr (Narrowed g b) \<Rightarrow> JStr ''success''
      | Inr NotNarrowed \<Rightarrow> (if code = Some 1 then JStr ''test_error'' else JStr ''system_error'')
      | Inl e \<Rightarrow> JStr ''system_error'')
   \<and> own_prop (Runner_result r now (on_close parser out code)) ''bisect_range'' =
     (case parser (concat out) of
        Inr (Narrowed g b) \<Rightarrow> JArr [JStr g, JStr b]
      | Inr NotNarrowed \<Rightarrow> JUndefined
      | Inl e \<Rightarrow> JUndefined)
   \<and> own_prop (Runner_result r now (on_close parser out code)) ''error'' =
     (case parser (concat out) of
        Inr (Narrowed g b) \<Rightarrow> JUndefined
      | Inr NotNarrowed \<Rightarrow> JStr ''Failed to narrow test down to two versions''
      | Inl e \<Rightarrow> JStr e)
   \<and> own_prop (Runner_result r now (on_error err)) ''status'' = JStr ''system_error''
   \<and> own_prop (Runner_result r now (on_error err)) ''error'' = JStr err"
  by (simp add: Runner_result_def own_prop_Object_assign own_prop_defaults on_close_def
      on_error_def split: sum.splits bisect_output.splits)













section \<open>Properties of the patch endpoint\<close>

lemma applyPatch_from_append:
  "applyPatch_from cs st (ops1 @ ops2) =
     (case applyPatch_from cs st ops1 of
        (st1, Some e) \<Rightarrow> (st1, Some e)
      | (st1, None) \<Rightarrow> applyPatch_from cs st1 ops2)"
  by (induction ops1 arbitrary: st) (auto split: prod.splits option.splits)

lemma disallowed_validator:
  "disallowed D p \<Longrightarrow> validator (canSet D) p = Some (JsonPatchError ''OPERATION_OP_INVALID'')"
  by (simp add: disallowed_def validator_def)

lemma applyPatch_from_disallowed:
  "disallowed D bad \<Longrightarrow>
   applyPatch_from (canSet D) st (bad # rest) = (st, Some (JsonPatchError ''OPERATION_OP_INVALID''))"
  by (simp add: applyOperation_def disallowed_validator)

lemma applyPatch_from_cut:
  assumes "disallowed D bad"
  shows "applyPatch_from (canSet D) st (before @ bad # rest) =
     (case applyPatch_from (canSet D) st before of
        (st1, Some e) \<Rightarrow> (st1, Some e)
      | (st1, None) \<Rightarrow> (st1, Some (JsonPatchError ''OPERATION_OP_INVALID'')))"
  by (simp only: applyPatch_from_append applyPatch_from_disallowed [OF assms])

lemma applyPatch_cut:
  assumes "disallowed D bad"
  shows "fst (applyPatch (canSet D) task (before @ bad # rest)) =
         fst (applyPatch (canSet D) task before)"
    and "snd (applyPatch (canSet D) task (before @ bad # rest)) \<noteq> None"
  unfolding applyPatch_def applyPatch_from_cut [OF assms]
  by (auto split: prod.splits option.splits)

lemma patchJob_task_cut:
  assumes "disallowed D bad"
  shows "snd (patchJob_task D (req\<lparr>req_body := before @ bad # rest\<rparr>) task) =
         snd (patchJob_task D (req\<lparr>req_body := before\<rparr>) task)"
    and "status_code (fst (patchJob_task D (req\<lparr>req_body := before @ bad # rest\<rparr>) task)) =
          (if precondition_failed req task then 412 else 400)"
proof -
  have pf: "\<And>x. precondition_failed (req\<lparr>req_body := x\<rparr>) task = precondition_failed req task"
    by (simp add: precondition_failed_def req_header_def)
  have "snd (applyPatch (canSet D) task (before @ bad # rest)) \<noteq> None"
    by (rule applyPatch_cut(2) [OF assms])
  then obtain t2 e where a: "applyPatch (canSet D) task (before @ bad # rest) = (t2, Some e)"
    by (cases "applyPatch (canSet D) task (before @ bad # rest)") auto
  have t2: "t2 = fst (applyPatch (canSet D) task before)"
    using applyPatch_cut(1) [OF assms, where task = task and before = before and rest = rest] a
    by simp
  show "snd (patchJob_task D (req\<lparr>req_body := before @ bad # rest\<rparr>) task) =
         snd (patchJob_task D (req\<lparr>req_body := before\<rparr>) task)"
    by (simp add: patchJob_task_def pf a t2 split: prod.splits option.splits)
  show "status_code (fst (patchJob_task D (req\<lparr>req_body := before @ bad # rest\<rparr>) task)) =
          (if precondition_failed req task then 412 else 400)"
    by (simp add: patchJob_task_def pf a)
qed

lemma patchJob_task_first_disallowed:
  assumes "disallowed D bad"
  shows "snd (patchJob_task D (req\<lparr>req_body := bad # rest\<rparr>) task) = task"
  using patchJob_task_cut(1) [OF assms, where req = req and before = "[]" and rest = rest and task = task]
  by (simp add: patchJob_task_def applyPatch_def split: if_splits)

text \<open>
  Claim C3, as stated: a batch with a disallowed operation leaves the job exactly as it
  was. It fails for the batch that first replaces \<open>bot_client_data\<close> (allowed) and
  then replaces \<open>id\<close> (disallowed): the answer is 400, and the job the broker holds
  afterwards has the new \<open>bot_client_data\<close>.
\<close>

theorem batch_not_atomic_counterexample:
  "disallowed deps_spec (replace_op ''/id'' (JStr ''x''))
   \<and> status_code (fst (Server_patchJob deps_spec [''j1'' \<mapsto> task0] mixed_batch)) = 400
   \<and> snd (Server_patchJob deps_spec [''j1'' \<mapsto> task0] mixed_batch) ''j1'' =
       Some (JObj [(''id'', JStr ''j1''), (''type'', JStr ''bisect''),
           (''bisect_range'', JArr [JStr ''v1'', JStr ''v5'']), (''gist'', JStr ''g''),
           (''history'', JArr []), (''bot_client_data'', JObj [(''a'', JNum 1)])])
   \<and> snd (Server_patchJob deps_spec [''j1'' \<mapsto> task0] mixed_batch) ''j1'' \<noteq> Some task0"
  by code_simp

text \<open>
  Claim C3, amended: when a batch contains an operation that Patch Authorization
  disallows, the broker holds afterwards exactly what it would hold after the batch
  cut off before that operation: the operations before it are applied (as far as they
  go) and stay applied, the disallowed operation and everything after it are not.
  The answer is 400 (404 for an unknown id, 412 for a failed precondition). When the
  disallowed operation is the first of the batch the broker's store is unchanged.
\<close>

theorem batch_cut_at_disallowed:
  assumes "disallowed D bad"
  shows "snd (Server_patchJob D b (req\<lparr>req_body := before @ bad # rest\<rparr>)) =
         snd (Server_patchJob D b (req\<lparr>req_body := before\<rparr>))
     \<and> status_code (fst (Server_patchJob D b (req\<lparr>req_body := before @ bad # rest\<rparr>))) =
         (case b (req_id req) of
            None \<Rightarrow> 404
          | Some task \<Rightarrow> if precondition_failed req task then 412 else 400)
     \<and> snd (Server_patchJob D b (req\<lparr>req_body := bad # rest\<rparr>)) = b"
proof (cases "b (req_id req)")
  case None
  then show ?thesis by (simp add: Server_patchJob_def unknown_job_def)
next
  case (Some task)
  have 1: "snd (Server_patchJob D b (req\<lparr>req_body := before @ bad # rest\<rparr>)) =
         snd (Server_patchJob D b (req\<lparr>req_body := before\<rparr>))"
    using patchJob_task_cut(1) [OF assms, where req = req and before = before and rest = rest and task = task] Some
    by (simp add: Server_patchJob_def split_beta)
  have 2: "status_code (fst (Server_patchJob D b (req\<lparr>req_body := before @ bad # rest\<rparr>))) =
         (if precondition_failed req task then 412 else 400)"
    using patchJob_task_cut(2) [OF assms, where req = req and before = before and rest = rest and task = task] Some
    by (simp add: Server_patchJob_def split_beta)
  have 3: "snd (Server_patchJob D b (req\<lparr>req_body := bad # rest\<rparr>)) = b"
    using patchJob_task_first_disallowed [OF assms, where req = req and rest = rest and task = task] Some
    by (simp add: Server_patchJob_def split_beta map_upd_triv)
  show ?thesis using 1 2 3 Some by simp
qed

theorem batch_cut_at_disallowed_witness:
  "disallowed deps_spec (replace_op ''/id'' (JStr ''x''))
   \<and> snd (Server_patchJob deps_spec [''j1'' \<mapsto> task0]
        (mixed_batch\<lparr>req_body := [replace_op ''/bot_client_data'' (JObj [(''a'', JNum 1)])]
                                    @ replace_op ''/id'' (JStr ''x'') # []\<rparr>)) =
      snd (Server_patchJob deps_spec [''j1'' \<mapsto> task0]
        (mixed_batch\<lparr>req_body := [replace_op ''/bot_client_data'' (JObj [(''a'', JNum 1)])]\<rparr>))
   \<and> status_code (fst (Server_patchJob deps_spec [''j1'' \<mapsto> task0]
        (mixed_batch\<lparr>req_body := [replace_op ''/bot_client_data'' (JObj [(''a'', JNum 1)])]
                                    @ replace_op ''/id'' (JStr ''x'') # []\<rparr>))) = 400
   \<and> snd (Server_patchJob deps_spec [''j1'' \<mapsto> task0]
        (mixed_batch\<lparr>req_body := replace_op ''/id'' (JStr ''x'') # []\<rparr>)) = [''j1'' \<mapsto> task0]"
proof -
  have h: "disallowed deps_spec (replace_op ''/id'' (JStr ''x''))"
    by code_simp
  have p: "\<not> precondition_failed mixed_batch task0"
    by (simp add: precondition_failed_def req_header_def mixed_batch_def)
  show ?thesis
    using h p batch_cut_at_disallowed [OF h, where b = "[''j1'' \<mapsto> task0]" and req = mixed_batch
        and before = "[replace_op ''/bot_client_data'' (JObj [(''a'', JNum 1)])]" and rest = "[]"]
    by (simp add: mixed_batch_def)
qed

section \<open>The stored etag\<close>

lemma own_prop_del_prop:
  "own_prop (del_prop kvs k) e = (if e = k then JUndefined else own_prop kvs e)"
  by (induction kvs) (auto simp: own_prop_def del_prop_def)

lemma obj_final_frame:
  "obj_final opn v kvs key = Inr (d, r) \<Longrightarrow>
     \<exists>kvs'. d = JObj kvs' \<and> (\<forall>e. e \<noteq> key \<longrightarrow> own_prop kvs' e = own_prop kvs e)"
  by (cases opn) (auto simp: own_prop_set_prop own_prop_del_prop split: if_splits)

lemma walk_frame:
  "walk vld opn v prev (k # ks) (JObj kvs) = Inr (d, r) \<Longrightarrow>
     \<exists>kvs'. d = JObj kvs'
        \<and> (\<forall>e. e \<noteq> unescapePathComponent k \<longrightarrow> own_prop kvs' e = own_prop kvs e)"
  by (auto simp: Let_def put_back_def own_prop_set_prop split: if_splits sum.splits prod.splits
      dest: obj_final_frame)

lemma split_on_not_Nil: "split_on c s \<noteq> []"
  by (induction s) (auto split: list.splits)

lemma walk_path_frame:
  assumes "walk_path vld opn v path (JObj kvs) = Inr (d, r)" and "first_key path \<noteq> e"
  shows "\<exists>kvs'. d = JObj kvs' \<and> own_prop kvs' e = own_prop kvs e"
proof (cases "split_on CHR ''/'' path")
  case Nil
  then show ?thesis using split_on_not_Nil by blast
next
  case (Cons k0 ks)
  show ?thesis
  proof (cases ks)
    case Nil
    with Cons assms have w: "walk vld opn v k0 [''undefined''] (JObj kvs) = Inr (d, r)"
      and k: "unescapePathComponent ''undefined'' \<noteq> e"
      by (simp_all add: walk_path_def first_key_def pointer_keys_def)
    from walk_frame [OF w] k show ?thesis by auto
  next
    case (Cons k1 rest)
    with \<open>split_on CHR ''/'' path = k0 # ks\<close> assms
    have w: "walk vld opn v k0 (k1 # rest) (JObj kvs) = Inr (d, r)"
      and k: "unescapePathComponent k1 \<noteq> e"
      by (simp_all add: walk_path_def first_key_def pointer_keys_def)
    from walk_frame [OF w] k show ?thesis by auto
  qed
qed

lemma apply_in_frame:
  assumes "apply_in vld p (JObj kvs) = (d, out)"
    and "first_key (op_path p) \<noteq> e"
    and "op_name p = Move \<Longrightarrow> first_key (op_from p) \<noteq> e"
  shows "\<exists>kvs'. d = JObj kvs' \<and> own_prop kvs' e = own_prop kvs e"
proof (cases "op_name p = Move")
  case True
  show ?thesis
  proof (cases "walk_path vld Move JUndefined (op_path p) (JObj kvs)")
    case (Inl a)
    with True assms(1) show ?thesis by (auto simp: apply_in_def)
  next
    case (Inr pr)
    show ?thesis
    proof (cases "op_from p = []")
      case True
      with \<open>op_name p = Move\<close> Inr assms(1) show ?thesis by (auto simp: apply_in_def)
    next
      case False
      show ?thesis
      proof (cases "walk_path False Remove JUndefined (op_from p) (JObj kvs)")
        case (Inl a)
        with \<open>op_name p = Move\<close> Inr False assms(1) show ?thesis by (auto simp: apply_in_def)
      next
        case rm: (Inr pr1)
        obtain doc1 removed where pr1: "pr1 = (doc1, removed)" by (cases pr1)
        from walk_path_frame [OF rm [unfolded pr1] assms(3) [OF True]]
        obtain kvs1 where d1: "doc1 = JObj kvs1" "own_prop kvs1 e = own_prop kvs e" by auto
        show ?thesis
        proof (cases "walk_path False Add removed (op_path p) doc1")
          case (Inl a)
          with \<open>op_name p = Move\<close> Inr False rm pr1 assms(1) d1 show ?thesis
            by (auto simp: apply_in_def)
        next
          case ad: (Inr pr2)
          obtain doc2 r2 where pr2: "pr2 = (doc2, r2)" by (cases pr2)
          from walk_path_frame [OF ad [unfolded pr2 d1(1)] assms(2)]
          obtain kvs2 where d2: "doc2 = JObj kvs2" "own_prop kvs2 e = own_prop kvs1 e" by auto
          from \<open>op_name p = Move\<close> Inr False rm pr1 ad pr2 assms(1) have "d = doc2"
            by (auto simp: apply_in_def)
          with d1 d2 show ?thesis by simp
        qed
      qed
    qed
  qed
next
  case nm: False
  show ?thesis
  proof (cases "op_name p = Copy")
    case True
    show ?thesis
    proof (cases "walk_path False Add (deepClone (case getValueByPointer (JObj kvs) (op_from p) of Inr x \<Rightarrow> x | Inl _ \<Rightarrow> JUndefined)) (op_path p) (JObj kvs)")
      case (Inl a)
      with True nm assms(1) show ?thesis
        by (auto simp: apply_in_def split: sum.splits)
    next
      case ad: (Inr pr2)
      obtain doc2 r2 where pr2: "pr2 = (doc2, r2)" by (cases pr2)
      from walk_path_frame [OF ad [unfolded pr2] assms(2)]
      obtain kvs2 where d2: "doc2 = JObj kvs2" "own_prop kvs2 e = own_prop kvs e" by auto
      from True nm assms(1) ad pr2 have "d = JObj kvs \<or> d = doc2"
        by (auto simp: apply_in_def split: sum.splits)
      with d2 show ?thesis by auto
    qed
  next
    case False
    show ?thesis
    proof (cases "walk_path vld (op_name p) (op_value p) (op_path p) (JObj kvs)")
      case (Inl a)
      with False nm assms(1) show ?thesis by (auto simp: apply_in_def)
    next
      case w: (Inr pr2)
      obtain doc2 r2 where pr2: "pr2 = (doc2, r2)" by (cases pr2)
      from walk_path_frame [OF w [unfolded pr2] assms(2)]
      obtain kvs2 where d2: "doc2 = JObj kvs2" "own_prop kvs2 e = own_prop kvs e" by auto
      from False nm assms(1) w pr2 have "d = doc2" by (auto simp: apply_in_def)
      with d2 show ?thesis by simp
    qed
  qed
qed

lemma at_path_frame:
  assumes "at_path (k # ks) f (JObj kvs) = (d, out)" and "unescapePathComponent k \<noteq> e"
  shows "\<exists>kvs'. d = JObj kvs' \<and> own_prop kvs' e = own_prop kvs e"
  using assms by (auto simp: own_prop_set_prop split: if_splits prod.splits)


lemma pointer_keys_not_Nil: "pointer_keys p \<noteq> []"
  using split_on_not_Nil [of "CHR ''/''" p]
  by (auto simp: pointer_keys_def split: list.splits)

lemma root_op_keeps:
  assumes "keeps_etag e0 st" and "\<not> addresses_etag p" and "root_op p st = (st2, err)"
  shows "keeps_etag e0 st2"
proof -
  have fk: "op_name p = Move \<or> op_name p = Copy \<Longrightarrow>
      (case pointer_keys (op_from p) of [] \<Rightarrow> True | k # rest \<Rightarrow> unescapePathComponent k \<noteq> ''etag'')"
    using assms(2) by (auto simp: addresses_etag_def first_key_def split: list.splits)
  have app: "\<And>ks. (case ks of [] \<Rightarrow> True | k # rest \<Rightarrow> unescapePathComponent k \<noteq> ''etag'') \<Longrightarrow>
      op_name p = Move \<or> op_name p = Copy \<Longrightarrow>
      (case ks @ pointer_keys (op_from p) of [] \<Rightarrow> True | k # rest \<Rightarrow> unescapePathComponent k \<noteq> ''etag'')"
    using fk by (auto split: list.splits)
  show ?thesis
    using assms(1,3) app
    by (cases "op_name p")
      (auto simp: root_op_def keeps_etag_def split: if_splits sum.splits docref.splits jsval.splits)
qed

lemma applyOperation_keeps:
  assumes "keeps_etag e0 st" and "\<not> addresses_etag p" and "applyOperation cs p st = (st2, err)"
  shows "keeps_etag e0 st2"
proof (cases "validator cs p")
  case (Some a)
  with assms show ?thesis by (simp add: applyOperation_def)
next
  case None
  show ?thesis
  proof (cases "op_path p = []")
    case True
    with None assms(3) have "root_op p st = (st2, err)" by (simp add: applyOperation_def)
    from root_op_keeps [OF assms(1,2) this] show ?thesis .
  next
    case False
    obtain task ref where st: "st = (task, ref)" by (cases st)
    from assms(1) st obtain kvs where t: "task = JObj kvs" "own_prop kvs ''etag'' = e0"
      by (auto simp: keeps_etag_def split: jsval.splits)
    have a1: "first_key (op_path p) \<noteq> ''etag''"
      and a2: "op_name p = Move \<Longrightarrow> first_key (op_from p) \<noteq> ''etag''"
      using assms(2) by (auto simp: addresses_etag_def)
    show ?thesis
    proof (cases ref)
      case (Detached d)
      with None False st assms(1,3) show ?thesis
        by (auto simp: applyOperation_def keeps_etag_def split: prod.splits sum.splits)
    next
      case (Within ks)
      obtain task2 out where ap: "at_path ks (apply_in True p) task = (task2, out)"
        by (cases "at_path ks (apply_in True p) task")
      have "\<exists>kvs'. task2 = JObj kvs' \<and> own_prop kvs' ''etag'' = own_prop kvs ''etag''"
      proof (cases ks)
        case Nil
        with ap t have "apply_in True p (JObj kvs) = (task2, out)" by simp
        from apply_in_frame [OF this a1 a2] show ?thesis by simp
      next
        case (Cons k rest)
        with assms(1) st Within have "unescapePathComponent k \<noteq> ''etag''"
          by (simp add: keeps_etag_def)
        with at_path_frame [OF ap [unfolded Cons t(1)]] show ?thesis by simp
      qed
      then obtain kvs2 where t2: "task2 = JObj kvs2" "own_prop kvs2 ''etag'' = e0"
        using t by auto
      from None False st Within ap assms(3) have "st2 = (task2, Within ks)"
        by (auto simp: applyOperation_def split: sum.splits)
      with t2 assms(1) st Within show ?thesis by (simp add: keeps_etag_def)
    qed
  qed
qed

lemma applyPatch_from_keeps:
  "keeps_etag e0 st \<Longrightarrow> \<forall>p \<in> set ps. \<not> addresses_etag p \<Longrightarrow>
   applyPatch_from cs st ps = (st2, err) \<Longrightarrow> keeps_etag e0 st2"
proof (induction ps arbitrary: st)
  case Nil
  then show ?case by simp
next
  case (Cons p ps)
  obtain st1 e1 where s: "applyOperation cs p st = (st1, e1)"
    by (cases "applyOperation cs p st")
  have k: "keeps_etag e0 st1"
    using applyOperation_keeps [OF Cons.prems(1) _ s] Cons.prems(2) by simp
  show ?case
  proof (cases e1)
    case None
    with s Cons.prems(3) have "applyPatch_from cs st1 ps = (st2, err)" by simp
    from Cons.IH [OF k _ this] Cons.prems(2) show ?thesis by simp
  next
    case (Some a)
    with s Cons.prems(3) k show ?thesis by simp
  qed
qed

lemma applyPatch_stored_etag:
  assumes "\<forall>p \<in> set ps. \<not> addresses_etag p"
  shows "stored_etag (fst (applyPatch cs (JObj kvs) ps)) = stored_etag (JObj kvs)"
proof -
  obtain st2 err where a: "applyPatch_from cs (JObj kvs, Within []) ps = (st2, err)"
    by (cases "applyPatch_from cs (JObj kvs, Within []) ps")
  have "keeps_etag (own_prop kvs ''etag'') (JObj kvs, Within [])"
    by (simp add: keeps_etag_def)
  from applyPatch_from_keeps [OF this assms a]
  show ?thesis using a
    by (auto simp: keeps_etag_def applyPatch_def stored_etag_def split: jsval.splits)
qed

section \<open>The precondition in the protocol\<close>

lemma lower_etag: "lower ''etag'' = ''etag''" by code_simp
lemma lower_ETag: "lower ''ETag'' = ''etag''" by code_simp
lemma lower_If_Match: "lower ''If-Match'' = ''if-match''" by code_simp

lemma Runner_patchJob_no_If_Match:
  "req_header (Runner_patchJob r patches) ''If-Match'' = None"
  by (simp add: Runner_patchJob_def req_header_def lower_etag lower_If_Match split: option.splits)

lemma Runner_patchJob_never_412:
  "status_code (fst (patchJob_task D (Runner_patchJob r patches) task)) \<noteq> 412"
  by (simp add: patchJob_task_def precondition_failed_def Runner_patchJob_no_If_Match
      split: prod.splits option.splits)

text \<open>
  Claim C2, evaluated where it fails. The job is read (the read stores the etag of the
  body, \<open>etag_read\<close>), then patched without a precondition, which changes the visible
  body; the etag of the body is now \<open>etag_patched\<close>, but the job still stores
  \<open>etag_read\<close>. A patch with \<open>If-Match: etag_read\<close>, which differs from the etag of
  the current visible body, is answered 200 and applied; a patch with
  \<open>If-Match: etag_patched\<close>, the etag the broker itself returned a moment ago, is
  answered 412.
\<close>

theorem stale_precondition_accepted:
  "etag_read \<noteq> etag_patched
   \<and> stored_etag patched_task = JStr etag_read
   \<and> status_code (fst (patchJob_task deps_spec (conditional_patch etag_read) patched_task)) = 200
   \<and> snd (patchJob_task deps_spec (conditional_patch etag_read) patched_task) \<noteq> patched_task
   \<and> status_code (fst (patchJob_task deps_spec (conditional_patch etag_patched) patched_task)) = 412"
  by code_simp

text \<open>
  Claim C1, evaluated where it fails. The request that \<open>Runner.patchJob\<close> sends has
  no \<open>If-Match\<close> header (the etag travels under the name \<open>etag\<close>), so for every
  Patch Authorization, every job and every two runners neither claim is answered 412.
  With two workers that fetched the same unclaimed job and the same etag, and a Patch
  Authorization that lets claims through, both claims are answered 200 and the job
  ends up held by the second worker.
\<close>

theorem claim_race_both_accepted:
  "req_header (Runner_patchJob rA (claim_patches rA)) ''If-Match'' = None
   \<and> status_code (fst (patchJob_task D (Runner_patchJob rA (claim_patches rA)) task)) \<noteq> 412
   \<and> status_code (fst (patchJob_task D (Runner_patchJob rB (claim_patches rB))
        (snd (patchJob_task D (Runner_patchJob rA (claim_patches rA)) task)))) \<noteq> 412
   \<and> etag worker_A = Some etag_read \<and> etag worker_B = Some etag_read
   \<and> stored_etag read_task = JStr etag_read
   \<and> status_code (fst (patchJob_task deps_runner
        (Runner_patchJob worker_A (claim_patches worker_A)) read_task)) = 200
   \<and> status_code (fst (patchJob_task deps_runner
        (Runner_patchJob worker_B (claim_patches worker_B)) claimed_task)) = 200
   \<and> optGet (optGet claimed_task ''current'') ''runner'' = JStr ''A''
   \<and> optGet (optGet (snd (patchJob_task deps_runner
        (Runner_patchJob worker_B (claim_patches worker_B)) claimed_task)) ''current'') ''runner''
       = JStr ''B''"
proof -
  have c: "etag worker_A = Some etag_read \<and> etag worker_B = Some etag_read
   \<and> stored_etag read_task = JStr etag_read
   \<and> status_code (fst (patchJob_task deps_runner
        (Runner_patchJob worker_A (claim_patches worker_A)) read_task)) = 200
   \<and> status_code (fst (patchJob_task deps_runner
        (Runner_patchJob worker_B (claim_patches worker_B)) claimed_task)) = 200
   \<and> optGet (optGet claimed_task ''current'') ''runner'' = JStr ''A''
   \<and> optGet (optGet (snd (patchJob_task deps_runner
        (Runner_patchJob worker_B (claim_patches worker_B)) claimed_task)) ''current'') ''runner''
       = JStr ''B''"
    by code_simp
  show ?thesis
    using c Runner_patchJob_no_If_Match Runner_patchJob_never_412 by simp
qed

text \<open>
  Claim C4, evaluated where it fails. \<open>patchResult\<close> sends one request with exactly
  the three operations, in the order add to history, replace last, remove current,
  and the first two carry the same Result. The request carries the runner's etag under
  the header name \<open>etag\<close> and has no \<open>If-Match\<close> header, so the broker never answers
  it with 412: a worker whose etag is not the job's reports, is answered 200, and the
  job's \<open>current\<close> is cleared.
\<close>

theorem report_not_conditional:
  "map op_name (req_body (Runner_patchResult r now partial)) = [Add, Replace, Remove]
   \<and> map op_path (req_body (Runner_patchResult r now partial)) = [''/history/-'', ''/last'', ''/current'']
   \<and> op_value (req_body (Runner_patchResult r now partial) ! 0) = json_roundtrip (JObj (Runner_result r now partial))
   \<and> op_value (req_body (Runner_patchResult r now partial) ! 1) = json_roundtrip (JObj (Runner_result r now partial))
   \<and> req_headers (Runner_patchResult r now partial) = (case etag r of None \<Rightarrow> [] | Some e \<Rightarrow> [(''etag'', e)])
   \<and> req_header (Runner_patchResult r now partial) ''If-Match'' = None
   \<and> status_code (fst (patchJob_task D (Runner_patchResult r now partial) task)) \<noteq> 412
   \<and> JStr ''stale'' \<noteq> stored_etag claimed_task
   \<and> status_code (fst (patchJob_task deps_runner
        (Runner_patchResult worker_stale 20 (on_error ''spawn failed'')) claimed_task)) = 200
   \<and> optGet (snd (patchJob_task deps_runner
        (Runner_patchResult worker_stale 20 (on_error ''spawn failed'')) claimed_task)) ''current'' = JUndefined"
proof -
  have c: "JStr ''stale'' \<noteq> stored_etag claimed_task
   \<and> status_code (fst (patchJob_task deps_runner
        (Runner_patchResult worker_stale 20 (on_error ''spawn failed'')) claimed_task)) = 200
   \<and> optGet (snd (patchJob_task deps_runner
        (Runner_patchResult worker_stale 20 (on_error ''spawn failed'')) claimed_task)) ''current'' = JUndefined"
    by code_simp
  have g: "map op_name (req_body (Runner_patchResult r now partial)) = [Add, Replace, Remove]
   \<and> map op_path (req_body (Runner_patchResult r now partial)) = [''/history/-'', ''/last'', ''/current'']
   \<and> op_value (req_body (Runner_patchResult r now partial) ! 0) = json_roundtrip (JObj (Runner_result r now partial))
   \<and> op_value (req_body (Runner_patchResult r now partial) ! 1) = json_roundtrip (JObj (Runner_result r now partial))
   \<and> req_headers (Runner_patchResult r now partial) = (case etag r of None \<Rightarrow> [] | Some e \<Rightarrow> [(''etag'', e)])"
    by (simp add: Runner_patchResult_def Runner_patchJob_def patchResult_patches_def wire_def lower_etag split: option.splits)
  show ?thesis
    using c g Runner_patchJob_no_If_Match [of r] Runner_patchJob_never_412 [of D r]
    by (simp add: Runner_patchResult_def)
qed

text \<open>
  Claim C9, as stated: the read is the only operation that updates the stored etag, and
  a successful PATCH does not change it. It fails for a batch that addresses the
  \<open>etag\<close> property itself. The broker's callback looks at the \<open>path\<close> of an
  operation only, so a \<open>move\<close> from \<open>/etag\<close> to \<open>/bot_client_data\<close> passes Patch
  Authorization: on a job whose stored etag is \<open>e0\<close> the PATCH is answered 200, the
  job is left without an \<open>etag\<close> property, and a PATCH that carries
  \<open>If-Match: e0\<close>, the etag the last read returned, is from then on answered 412.
\<close>

theorem patch_moves_etag_counterexample:
  "stored_etag (JObj [(''id'', JStr ''j1''), (''bot_client_data'', JObj []), (''etag'', JStr ''e0'')])
     = JStr ''e0''
   \<and> status_code (fst (Server_patchJob deps_spec
        [''j1'' \<mapsto> JObj [(''id'', JStr ''j1''), (''bot_client_data'', JObj []),
                            (''etag'', JStr ''e0'')]]
        \<lparr>req_id = ''j1'', req_headers = [],
         req_body = [\<lparr>op_name = Move, op_path = ''/bot_client_data'', op_from = ''/etag'',
                      op_value = JUndefined\<rparr>]\<rparr>)) = 200
   \<and> snd (Server_patchJob deps_spec
        [''j1'' \<mapsto> JObj [(''id'', JStr ''j1''), (''bot_client_data'', JObj []),
                            (''etag'', JStr ''e0'')]]
        \<lparr>req_id = ''j1'', req_headers = [],
         req_body = [\<lparr>op_name = Move, op_path = ''/bot_client_data'', op_from = ''/etag'',
                      op_value = JUndefined\<rparr>]\<rparr>) ''j1''
     = Some (JObj [(''id'', JStr ''j1''), (''bot_client_data'', JStr ''e0'')])
   \<and> stored_etag (JObj [(''id'', JStr ''j1''), (''bot_client_data'', JStr ''e0'')]) = JUndefined
   \<and> status_code (fst (Server_patchJob deps_spec
        [''j1'' \<mapsto> JObj [(''id'', JStr ''j1''), (''bot_client_data'', JStr ''e0'')]]
        \<lparr>req_id = ''j1'', req_headers = [(''if-match'', ''e0'')],
         req_body = [replace_op ''/bot_client_data'' (JObj [])]\<rparr>)) = 412"
  by code_simp

text \<open>
  Claim C9, amended. For a known id whose task is the object \<open>kvs\<close>:
  \<open>Server.getJob\<close> answers 200 with the serialised public subset as body and the
  etag of that body as \<open>ETag\<close> header, and leaves that same etag stored in the
  task's \<open>etag\<close> property. \<open>Server.patchJob\<close> answers 412 and leaves the task as
  it was when the precondition fails; otherwise it leaves the task as the run over the
  batch left it, answers 400 when the run threw, and otherwise answers 200 with the
  etag of the patched task's body as \<open>ETag\<close> header, which it does not store: for
  every batch none of whose operations addresses the \<open>etag\<close> property (by its
  \<open>path\<close>, or by the \<open>from\<close> of a move or copy) the stored etag after the PATCH is
  the stored etag before it, whatever the answer. On the job \<open>{id: "j1"}\<close> the read
  returns the body \<open>{"id":"j1"}\<close> and stores its etag; on a job whose stored etag is
  \<open>e0\<close>, replacing \<open>bot_client_data\<close> by \<open>{a: 1}\<close> is answered 200 with the
  etag of the new body and leaves \<open>e0\<close> stored. The two handlers are the only ones
  this file models; the log and list handlers of the source do not assign
  \<open>task.etag\<close>.
\<close>

theorem etag_stored_by_get_only:
  assumes "b jid = Some (JObj kvs)" and "req_id req = jid"
    and "\<forall>p \<in> set (req_body req). \<not> addresses_etag p"
  shows "Server_getJob D b jid =
           (\<lparr>status_code = 200,
             resp_headers = [(''etag'', create_etag D (JSON_stringify (publicSubset D (JObj kvs)))),
                             (''content-type'', ''application/json'')],
             resp_body = JSON_stringify (publicSubset D (JObj kvs))\<rparr>,
            b(jid \<mapsto> JObj (set_prop kvs ''etag''
                 (JStr (create_etag D (JSON_stringify (publicSubset D (JObj kvs))))))))
     \<and> map_option stored_etag (snd (Server_getJob D b jid) jid)
          = Some (JStr (create_etag D (JSON_stringify (publicSubset D (JObj kvs)))))
     \<and> Server_patchJob D b req =
          (if precondition_failed req (JObj kvs)
           then (\<lparr>status_code = 412, resp_headers = [],
                  resp_body = ''Invalid If-Match header: '' @ the (req_header req ''If-Match'')\<rparr>,
                 b(jid \<mapsto> JObj kvs))
           else (case applyPatch (canSet D) (JObj kvs) (req_body req) of
                   (task2, Some err) \<Rightarrow>
                     (\<lparr>status_code = 400, resp_headers = [], resp_body = []\<rparr>,
                      b(jid \<mapsto> task2))
                 | (task2, None) \<Rightarrow>
                     (\<lparr>status_code = 200,
                       resp_headers =
                         [(''etag'', create_etag D (JSON_stringify (publicSubset D task2)))],
                       resp_body = []\<rparr>,
                      b(jid \<mapsto> task2))))
     \<and> map_option stored_etag (snd (Server_patchJob D b req) jid) = Some (stored_etag (JObj kvs))
     \<and> fst (Server_getJob deps_spec [''j1'' \<mapsto> JObj [(''id'', JStr ''j1'')]] ''j1'') =
           \<lparr>status_code = 200,
            resp_headers =
              [(''etag'', CHR 0x22 # ''{'' @ CHR 0x22 # ''id'' @ CHR 0x22 # '':'' @ CHR 0x22 #
                          ''j1'' @ CHR 0x22 # ''}'' @ [CHR 0x22]),
               (''content-type'', ''application/json'')],
            resp_body = ''{'' @ CHR 0x22 # ''id'' @ CHR 0x22 # '':'' @ CHR 0x22 # ''j1'' @
                        CHR 0x22 # ''}''\<rparr>
     \<and> snd (Server_getJob deps_spec [''j1'' \<mapsto> JObj [(''id'', JStr ''j1'')]] ''j1'') ''j1'' =
           Some (JObj [(''id'', JStr ''j1''),
                       (''etag'', JStr (CHR 0x22 # ''{'' @ CHR 0x22 # ''id'' @ CHR 0x22 # '':'' @
                                        CHR 0x22 # ''j1'' @ CHR 0x22 # ''}'' @ [CHR 0x22]))])
     \<and> fst (Server_patchJob deps_spec
          [''j1'' \<mapsto> JObj [(''id'', JStr ''j1''), (''bot_client_data'', JObj []),
                              (''etag'', JStr ''e0'')]]
          \<lparr>req_id = ''j1'', req_headers = [],
           req_body = [replace_op ''/bot_client_data'' (JObj [(''a'', JNum 1)])]\<rparr>) =
           \<lparr>status_code = 200,
            resp_headers =
              [(''etag'', CHR 0x22 # ''{'' @ CHR 0x22 # ''id'' @ CHR 0x22 # '':'' @ CHR 0x22 #
                          ''j1'' @ CHR 0x22 # '','' @ CHR 0x22 # ''bot_client_data'' @
                          CHR 0x22 # '':{'' @ CHR 0x22 # ''a'' @ CHR 0x22 # '':1}}'' @
                          [CHR 0x22])],
            resp_body = []\<rparr>
     \<and> snd (Server_patchJob deps_spec
          [''j1'' \<mapsto> JObj [(''id'', JStr ''j1''), (''bot_client_data'', JObj []),
                              (''etag'', JStr ''e0'')]]
          \<lparr>req_id = ''j1'', req_headers = [],
           req_body = [replace_op ''/bot_client_data'' (JObj [(''a'', JNum 1)])]\<rparr>) ''j1'' =
           Some (JObj [(''id'', JStr ''j1''), (''bot_client_data'', JObj [(''a'', JNum 1)]),
                       (''etag'', JStr ''e0'')])"
proof -
  let ?E = "create_etag D (JSON_stringify (publicSubset D (JObj kvs)))"
  have lc: "lower ''Content-Type'' = ''content-type''" by code_simp
  have 1: "Server_getJob D b jid =
           (\<lparr>status_code = 200,
             resp_headers = [(''etag'', ?E), (''content-type'', ''application/json'')],
             resp_body = JSON_stringify (publicSubset D (JObj kvs))\<rparr>,
            b(jid \<mapsto> JObj (set_prop kvs ''etag'' (JStr ?E))))"
    using assms(1)
    by (simp add: Server_getJob_def getJob_task_def getTaskBody_def store_etag_def
        lower_ETag lc Let_def)
  have 2: "map_option stored_etag (snd (Server_getJob D b jid) jid) = Some (JStr ?E)"
    by (simp add: 1 stored_etag_def own_prop_set_prop)
  have 3: "Server_patchJob D b req =
          (if precondition_failed req (JObj kvs)
           then (\<lparr>status_code = 412, resp_headers = [],
                  resp_body = ''Invalid If-Match header: '' @ the (req_header req ''If-Match'')\<rparr>,
                 b(jid \<mapsto> JObj kvs))
           else (case applyPatch (canSet D) (JObj kvs) (req_body req) of
                   (task2, Some err) \<Rightarrow>
                     (\<lparr>status_code = 400, resp_headers = [], resp_body = []\<rparr>,
                      b(jid \<mapsto> task2))
                 | (task2, None) \<Rightarrow>
                     (\<lparr>status_code = 200,
                       resp_headers =
                         [(''etag'', create_etag D (JSON_stringify (publicSubset D task2)))],
                       resp_body = []\<rparr>,
                      b(jid \<mapsto> task2))))"
    using assms(1,2)
    by (simp add: Server_patchJob_def patchJob_task_def getTaskBody_def lower_ETag Let_def
        split: prod.splits option.splits)
  have 4: "map_option stored_etag (snd (Server_patchJob D b req) jid) = Some (stored_etag (JObj kvs))"
    using applyPatch_stored_etag [OF assms(3), of "canSet D" kvs]
    by (auto simp: 3 split: prod.splits option.splits)
  have 5: "fst (Server_getJob deps_spec [''j1'' \<mapsto> JObj [(''id'', JStr ''j1'')]] ''j1'') =
           \<lparr>status_code = 200,
            resp_headers =
              [(''etag'', CHR 0x22 # ''{'' @ CHR 0x22 # ''id'' @ CHR 0x22 # '':'' @ CHR 0x22 #
                          ''j1'' @ CHR 0x22 # ''}'' @ [CHR 0x22]),
               (''content-type'', ''application/json'')],
            resp_body = ''{'' @ CHR 0x22 # ''id'' @ CHR 0x22 # '':'' @ CHR 0x22 # ''j1'' @
                        CHR 0x22 # ''}''\<rparr>"
    by code_simp
  have 6: "snd (Server_getJob deps_spec [''j1'' \<mapsto> JObj [(''id'', JStr ''j1'')]] ''j1'') ''j1'' =
           Some (JObj [(''id'', JStr ''j1''),
                       (''etag'', JStr (CHR 0x22 # ''{'' @ CHR 0x22 # ''id'' @ CHR 0x22 # '':'' @
                                        CHR 0x22 # ''j1'' @ CHR 0x22 # ''}'' @ [CHR 0x22]))])"
    by code_simp
  have 7: "fst (Server_patchJob deps_spec
          [''j1'' \<mapsto> JObj [(''id'', JStr ''j1''), (''bot_client_data'', JObj []),
                              (''etag'', JStr ''e0'')]]
          \<lparr>req_id = ''j1'', req_headers = [],
           req_body = [replace_op ''/bot_client_data'' (JObj [(''a'', JNum 1)])]\<rparr>) =
           \<lparr>status_code = 200,
            resp_headers =
              [(''etag'', CHR 0x22 # ''{'' @ CHR 0x22 # ''id'' @ CHR 0x22 # '':'' @ CHR 0x22 #
                          ''j1'' @ CHR 0x22 # '','' @ CHR 0x22 # ''bot_client_data'' @
                          CHR 0x22 # '':{'' @ CHR 0x22 # ''a'' @ CHR 0x22 # '':1}}'' @
                          [CHR 0x22])],
            resp_body = []\<rparr>"
    by code_simp
  have 8: "snd (Server_patchJob deps_spec
          [''j1'' \<mapsto> JObj [(''id'', JStr ''j1''), (''bot_client_data'', JObj []),
                              (''etag'', JStr ''e0'')]]
          \<lparr>req_id = ''j1'', req_headers = [],
           req_body = [replace_op ''/bot_client_data'' (JObj [(''a'', JNum 1)])]\<rparr>) ''j1'' =
           Some (JObj [(''id'', JStr ''j1''), (''bot_client_data'', JObj [(''a'', JNum 1)]),
                       (''etag'', JStr ''e0'')])"
    by code_simp
  show ?thesis
    apply (intro conjI)
    apply (rule 1) apply (rule 2) apply (rule 3) apply (rule 4)
    apply (rule 5) apply (rule 6) apply (rule 7) apply (rule 8)
    done
qed

theorem etag_stored_by_get_only_witness:
  "[''j1'' \<mapsto> task0] ''j1'' = Some task0
   \<and> req_id good_patch = ''j1''
   \<and> list_all (\<lambda>p. \<not> addresses_etag p) (req_body good_patch)
   \<and> status_code (fst (Server_getJob deps_spec [''j1'' \<mapsto> task0] ''j1'')) = 200
   \<and> map_option stored_etag (snd (Server_getJob deps_spec [''j1'' \<mapsto> task0] ''j1'') ''j1'')
        = Some (JStr (create_etag_standin (JSON_stringify (publicSubset_spec task0))))
   \<and> status_code (fst (Server_patchJob deps_spec [''j1'' \<mapsto> task0] good_patch)) = 200
   \<and> map_option stored_etag (snd (Server_patchJob deps_spec [''j1'' \<mapsto> task0] good_patch) ''j1'')
        = Some JUndefined"
proof -
  have h1: "[''j1'' \<mapsto> task0] ''j1'' = Some (JObj [(''id'', JStr ''j1''), (''type'', JStr ''bisect''),
           (''bisect_range'', JArr [JStr ''v1'', JStr ''v5'']), (''gist'', JStr ''g''),
           (''history'', JArr []), (''bot_client_data'', JObj [])])"
    by (simp add: task0_def)
  have h2: "req_id good_patch = ''j1''" by (simp add: good_patch_def)
  have h3l: "list_all (\<lambda>p. \<not> addresses_etag p) (req_body good_patch)" by code_simp
  then have h3: "\<forall>p \<in> set (req_body good_patch). \<not> addresses_etag p"
    by (simp add: list_all_iff)
  have s: "status_code (fst (Server_patchJob deps_spec [''j1'' \<mapsto> task0] good_patch)) = 200"
    by code_simp
  have u: "stored_etag task0 = JUndefined" by code_simp
  have d: "create_etag deps_spec = create_etag_standin" "publicSubset deps_spec = publicSubset_spec"
    by (simp_all add: deps_spec_def)
  note t = etag_stored_by_get_only [where b = "[''j1'' \<mapsto> task0]" and jid = "''j1''"
        and req = good_patch and D = deps_spec, OF h1 h2 h3, unfolded task0_def [symmetric] d]
  have g: "status_code (fst (Server_getJob deps_spec [''j1'' \<mapsto> task0] ''j1'')) = 200"
    by (simp add: conjunct1 [OF t])
  have m: "map_option stored_etag (snd (Server_getJob deps_spec [''j1'' \<mapsto> task0] ''j1'') ''j1'')
        = Some (JStr (create_etag_standin (JSON_stringify (publicSubset_spec task0))))"
    by (rule conjunct1 [OF conjunct2 [OF t]])
  have p: "map_option stored_etag (snd (Server_patchJob deps_spec [''j1'' \<mapsto> task0] good_patch) ''j1'')
        = Some JUndefined"
    using conjunct1 [OF conjunct2 [OF conjunct2 [OF conjunct2 [OF t]]]] u by simp
  show ?thesis using h2 h3l s g m p by (simp add: task0_def [symmetric])
qed

section \<open>What the runner's poll query selects\<close>

lemma split_on_none: "c \<notin> set s \<Longrightarrow> split_on c s = [s]"
  by (induction s) auto

lemma split_on_append: "c \<notin> set xs \<Longrightarrow> split_on c (xs @ c # ys) = xs # split_on c ys"
  by (induction xs) auto

lemma platform_alternatives:
  assumes "w \<noteq> []" and "CHR '','' \<notin> set w"
  shows "filter (\<lambda>a. a \<noteq> []) (split_on CHR '','' (w @ '',undefined'')) = [w, ''undefined'']"
proof -
  have "split_on CHR '','' (w @ CHR '','' # ''undefined'') = w # split_on CHR '','' ''undefined''"
    by (rule split_on_append [OF assms(2)])
  then show ?thesis using assms(1) by simp
qed

lemma job_typed_parts:
  assumes "job_typed L j"
  shows "field L j ''platform'' = Data JUndefined \<or> (\<exists>p. field L j ''platform'' = Data (JStr p))"
    and "field L j ''current'' = Data JUndefined
         \<or> (\<exists>c u. field L j ''current'' = Data (JObj c) \<and> field L (JObj c) ''runner'' = Data (JStr u))"
    and "field L j ''last'' = Data JUndefined
         \<or> (\<exists>l s. field L j ''last'' = Data (JObj l) \<and> field L (JObj l) ''status'' = Data (JStr s)
                  \<and> s \<noteq> ''undefined'')"
    and "\<exists>t. field L j ''type'' = Data (JStr t)"
    and "j \<noteq> JUndefined"
proof -
  note t = assms [unfolded job_typed_def]
  from t have "case field L j ''platform'' of
         Data JUndefined \<Rightarrow> True | Data (JStr p) \<Rightarrow> True | _ \<Rightarrow> False"
    by (rule conjunct1)
  then show "field L j ''platform'' = Data JUndefined \<or> (\<exists>p. field L j ''platform'' = Data (JStr p))"
    by (simp split: walked.splits jsval.splits)
  from t have c: "case field L j ''current'' of
            Data JUndefined \<Rightarrow> True
          | Data (JObj c) \<Rightarrow>
              (case field L (JObj c) ''runner'' of Data (JStr u) \<Rightarrow> True | _ \<Rightarrow> False)
          | _ \<Rightarrow> False"
    by (rule conjunct1 [OF conjunct2])
  show "field L j ''current'' = Data JUndefined
         \<or> (\<exists>c u. field L j ''current'' = Data (JObj c) \<and> field L (JObj c) ''runner'' = Data (JStr u))"
  proof (cases "field L j ''current''")
    case (Foreign x)
    with c show ?thesis by simp
  next
    case (Data v)
    show ?thesis
    proof (cases v)
      case (JObj kvs)
      with Data c have "case field L (JObj kvs) ''runner'' of Data (JStr u) \<Rightarrow> True | _ \<Rightarrow> False"
        by simp
      then have "\<exists>u. field L (JObj kvs) ''runner'' = Data (JStr u)"
        by (simp split: walked.splits jsval.splits)
      with Data JObj show ?thesis by simp
    qed (use Data c in simp_all)
  qed
  from t have l: "case field L j ''last'' of
            Data JUndefined \<Rightarrow> True
          | Data (JObj l) \<Rightarrow> field L (JObj l) ''status'' = Data (JStr ''success'')
                       \<or> field L (JObj l) ''status'' = Data (JStr ''test_error'')
                       \<or> field L (JObj l) ''status'' = Data (JStr ''system_error'')
          | _ \<Rightarrow> False"
    by (rule conjunct1 [OF conjunct2 [OF conjunct2]])
  show "field L j ''last'' = Data JUndefined
         \<or> (\<exists>l s. field L j ''last'' = Data (JObj l) \<and> field L (JObj l) ''status'' = Data (JStr s)
                  \<and> s \<noteq> ''undefined'')"
  proof (cases "field L j ''last''")
    case (Foreign x)
    with l show ?thesis by simp
  next
    case (Data v)
    show ?thesis
    proof (cases v)
      case (JObj kvs)
      with Data l have "field L (JObj kvs) ''status'' = Data (JStr ''success'')
                       \<or> field L (JObj kvs) ''status'' = Data (JStr ''test_error'')
                       \<or> field L (JObj kvs) ''status'' = Data (JStr ''system_error'')"
        by simp
      then have "\<exists>s. field L (JObj kvs) ''status'' = Data (JStr s) \<and> s \<noteq> ''undefined''"
        by auto
      with Data JObj show ?thesis by simp
    qed (use Data l in simp_all)
  qed
  from t have ty: "case field L j ''type'' of Data (JStr t) \<Rightarrow> True | _ \<Rightarrow> False"
    by (rule conjunct2 [OF conjunct2 [OF conjunct2]])
  then show "\<exists>t. field L j ''type'' = Data (JStr t)"
    by (simp split: walked.splits jsval.splits)
  from ty show "j \<noteq> JUndefined"
    by (auto simp: field_def)
qed

lemma query_key_paths:
  "key_path ''platform'' = [''platform'']"
  "key_path ''current.runner'' = [''current'', ''runner'']"
  "key_path ''last.status'' = [''last'', ''status'']"
  "key_path ''type'' = [''type'']"
  "\<not> endsWith ''platform'' CHR ''!''"
  "\<not> endsWith ''current.runner'' CHR ''!''"
  "\<not> endsWith ''last.status'' CHR ''!''"
  "\<not> endsWith ''type'' CHR ''!''"
  by (simp_all add: key_path_def endsWith_def)

lemma resolve_one:
  "j \<noteq> JUndefined \<Longrightarrow>
   resolve_spec L (Data j) [k] =
     (if field L j k = Data JUndefined then Data (JStr ''undefined'') else field L j k)"
  by (simp add: field_def)

lemma resolve_two:
  "j \<noteq> JUndefined \<Longrightarrow>
   resolve_spec L (Data j) [k, k'] =
     (if field L j k = Data JUndefined then Data (JStr ''undefined'')
      else if memberGet L (field L j k) k' = Data JUndefined then Data (JStr ''undefined'')
      else memberGet L (field L j k) k')"
  by (simp add: field_def)

lemma job_passes_query:
  assumes "job_typed L j" and "w \<noteq> []" and "CHR '','' \<notin> set w"
  shows "list_all (\<lambda>e. key_passes L (filter (\<lambda>a. a \<noteq> []) (split_on CHR '','' (snd e))) (fst e)
                        (resolve_spec L (Data j) (key_path (fst e))))
           [(''platform'', w @ '',undefined''), (''current.runner'', ''undefined''),
            (''last.status'', ''undefined''), (''type'', ''bisect'')]
         = offered L w j"
proof -
  note p = job_typed_parts [OF assms(1)]
  have d: "j \<noteq> JUndefined" by (rule p(5))
  have a1: "filter (\<lambda>a. a \<noteq> []) (split_on CHR '','' (w @ '',undefined'')) = [w, ''undefined'']"
    by (rule platform_alternatives [OF assms(2,3)])
  have a2: "filter (\<lambda>a. a \<noteq> []) (split_on CHR '','' ''undefined'') = [''undefined'']"
    by simp
  have a3: "filter (\<lambda>a. a \<noteq> []) (split_on CHR '','' ''bisect'') = [''bisect'']"
    by simp
  have k1: "key_passes L [w, ''undefined''] ''platform'' (resolve_spec L (Data j) [''platform''])
      = (field L j ''platform'' = Data (JStr w) \<or> field L j ''platform'' = Data JUndefined
         \<or> field L j ''platform'' = Data (JStr ''undefined''))"
    using p(1)
    by (auto simp: key_passes_def query_key_paths resolve_one [OF d]
        simp del: resolve_spec.simps memberGet.simps)
  have k2: "key_passes L [''undefined''] ''current.runner''
        (resolve_spec L (Data j) [''current'', ''runner''])
      = (field L j ''current'' = Data JUndefined
         \<or> memberGet L (field L j ''current'') ''runner'' = Data (JStr ''undefined''))"
    using p(2)
    by (auto simp: key_passes_def query_key_paths resolve_two [OF d] field_def [symmetric]
        simp del: resolve_spec.simps memberGet.simps)
  have k3: "key_passes L [''undefined''] ''last.status''
        (resolve_spec L (Data j) [''last'', ''status''])
      = (field L j ''last'' = Data JUndefined)"
    using p(3)
    by (auto simp: key_passes_def query_key_paths resolve_two [OF d] field_def [symmetric]
        simp del: resolve_spec.simps memberGet.simps)
  have k4: "key_passes L [''bisect''] ''type'' (resolve_spec L (Data j) [''type''])
      = (field L j ''type'' = Data (JStr ''bisect''))"
    using p(4)
    by (auto simp: key_passes_def query_key_paths resolve_one [OF d]
        simp del: resolve_spec.simps memberGet.simps)
  show ?thesis
    unfolding offered_def
    by (simp only: list.pred_inject fst_conv snd_conv a1 a2 a3 query_key_paths k1 k2 k3 k4 simp_thms)
qed

text \<open>
  Claim C6, as stated: a job whose \<open>current\<close> is set is never returned to the worker.
  It fails for a job held by a runner whose id is the string \<open>"undefined"\<close>: the
  job is well-typed, its \<open>current\<close> is set, it is not available for claim in the
  claim's words, and the runner's query returns it.
\<close>

theorem held_by_undefined_counterexample:
  "job_typed proto_lang held_job
   \<and> optGet held_job ''current'' \<noteq> JUndefined
   \<and> \<not> available_claimed proto_lang (platform worker0) held_job
   \<and> Server_filter proto_lang [held_job] (fetchAvailableJobs worker0) = [held_job]"
  by code_simp

text \<open>
  Claim C6, amended: for well-typed jobs and a worker whose platform name is non-empty
  and has no comma, the query of \<open>fetchAvailableJobs\<close> selects exactly the jobs
  whose platform is unset, the worker's, or the literal string \<open>"undefined"\<close>;
  whose \<open>current\<close> is unset or held by the runner id \<open>"undefined"\<close>; whose
  \<open>last\<close> is unset; and whose type is \<open>bisect\<close>. So every job returned has
  \<open>last\<close> unset, no holder other than a runner named \<open>"undefined"\<close>, and no
  platform other than the worker's or \<open>"undefined"\<close>.
\<close>

theorem runner_query_selects:
  assumes "\<forall>j \<in> set jobs. job_typed L j"
    and "platform r \<noteq> []" and "CHR '','' \<notin> set (platform r)"
  shows "Server_filter L jobs (fetchAvailableJobs r) = filter (offered L (platform r)) jobs
     \<and> list_all (offered L (platform r)) (Server_filter L jobs (fetchAvailableJobs r))"
proof -
  have "Server_filter L jobs (fetchAvailableJobs r) =
      filter (\<lambda>c. list_all (\<lambda>e. key_passes L
                (filter (\<lambda>a. a \<noteq> []) (split_on CHR '','' (snd e))) (fst e)
                (resolve_spec L (Data c) (key_path (fst e))))
             (fetchAvailableJobs r)) jobs"
    by (rule Server_filter_passes)
  also have "\<dots> = filter (offered L (platform r)) jobs"
    unfolding fetchAvailableJobs_def
  proof (rule filter_cong [OF refl])
    fix x
    assume "x \<in> set jobs"
    with assms(1) have t: "job_typed L x" by blast
    show "list_all (\<lambda>e. key_passes L
                (filter (\<lambda>a. a \<noteq> []) (split_on CHR '','' (snd e))) (fst e)
                (resolve_spec L (Data x) (key_path (fst e))))
           [(''platform'', platform r @ '',undefined''), (''current.runner'', ''undefined''),
            (''last.status'', ''undefined''), (''type'', ''bisect'')]
         = offered L (platform r) x"
      by (rule job_passes_query [OF t assms(2,3)])
  qed
  finally have 1: "Server_filter L jobs (fetchAvailableJobs r) = filter (offered L (platform r)) jobs" .
  then show ?thesis by (simp add: list_all_iff)
qed

theorem runner_query_selects_witness:
  "list_all (job_typed proto_lang) [task0, busy_job, held_job]
   \<and> platform worker0 \<noteq> [] \<and> CHR '','' \<notin> set (platform worker0)
   \<and> Server_filter proto_lang [task0, busy_job, held_job] (fetchAvailableJobs worker0)
        = [task0, held_job]
   \<and> filter (offered proto_lang (platform worker0)) [task0, busy_job, held_job] = [task0, held_job]"
proof -
  have h1l: "list_all (job_typed proto_lang) [task0, busy_job, held_job]" by code_simp
  then have h1: "\<forall>j \<in> set [task0, busy_job, held_job]. job_typed proto_lang j"
    by (simp add: list_all_iff)
  have h2: "platform worker0 \<noteq> []" by (simp add: worker0_def)
  have h3: "CHR '','' \<notin> set (platform worker0)" by (simp add: worker0_def)
  have e: "filter (offered proto_lang (platform worker0)) [task0, busy_job, held_job] = [task0, held_job]"
    by code_simp
  show ?thesis
    using runner_query_selects [OF h1 h2 h3] h1l h2 h3 e by simp
qed

section \<open>Re-entry of the poll loop\<close>

text \<open>
  Claim C8, as stated: at every moment at most one invocation of \<open>poll\<close> is in
  flight, so a worker never holds two claimed jobs at once. It fails in the run where
  the timer fires while the child process of the first job is still running: the second
  invocation lists, fetches and claims a second job, and the worker then has two
  invocations in flight, both with a running child, having sent claims for the jobs
  \<open>j1\<close> and \<open>j2\<close>.
\<close>

theorem overlapping_polls_counterexample:
  "\<not> one_at_a_time (\<lambda>s. Inr NotNarrowed) overlapping_run
   \<and> polls (run (\<lambda>s. Inr NotNarrowed) idle overlapping_run) = [ChildRunning, ChildRunning]
   \<and> in_flight (run (\<lambda>s. Inr NotNarrowed) idle overlapping_run) = 2
   \<and> executing (run (\<lambda>s. Inr NotNarrowed) idle overlapping_run) = 2
   \<and> patched_ids (run (\<lambda>s. Inr NotNarrowed) idle overlapping_run) = [''j1'', ''j2'']"
  by code_simp

lemma in_flight_pollSafely: "in_flight (pollSafely w) = Suc (in_flight w)"
  by (simp add: in_flight_def pollSafely_def)

lemma step_TimerFired:
  "step parser w TimerFired = (if timer w then pollSafely w else w)"
  by (simp add: step_def)

lemma timer_pollSafely: "timer (pollSafely w) = timer w"
  by (simp add: pollSafely_def)

lemma run_timer_fires:
  "timer w \<Longrightarrow>
   in_flight (run parser w (replicate n TimerFired)) = in_flight w + n
   \<and> timer (run parser w (replicate n TimerFired))"
proof (induction n arbitrary: w)
  case 0
  then show ?case by (simp add: run_def)
next
  case (Suc n)
  have "run parser w (replicate (Suc n) TimerFired) =
        run parser (pollSafely w) (replicate n TimerFired)"
    using Suc.prems by (simp add: run_def step_TimerFired)
  moreover have "timer (pollSafely w)" using Suc.prems by (simp add: timer_pollSafely)
  ultimately show ?case
    using Suc.IH [of "pollSafely w"] by (simp add: in_flight_pollSafely)
qed

text \<open>
  Claim C8, amended: a firing of the interval timer of a started worker always begins a
  new invocation of \<open>poll\<close>, whatever the stages of the invocations before it
  (nothing guards the re-entry), and so does \<open>start\<close>; the number of invocations in
  flight is not bounded by one: after \<open>start\<close> and \<open>n\<close> firings with no answer
  delivered in between, \<open>n + 1\<close> invocations are in flight.
\<close>

theorem timer_starts_polls_unguarded:
  "polls (step parser w TimerFired) = (if timer w then polls w @ [ListPending] else polls w)
   \<and> in_flight (step parser w TimerFired) = (if timer w then Suc (in_flight w) else in_flight w)
   \<and> in_flight (step parser w Start) = Suc (in_flight w)
   \<and> timer (step parser w Start)
   \<and> in_flight (run parser idle (Start # replicate n TimerFired)) = Suc n"
proof -
  have s: "step parser idle Start = pollSafely (idle\<lparr>timer := True\<rparr>)"
    by (simp add: step_def)
  have t: "timer (pollSafely (idle\<lparr>timer := True\<rparr>))" by (simp add: pollSafely_def)
  have "run parser idle (Start # replicate n TimerFired) =
        run parser (pollSafely (idle\<lparr>timer := True\<rparr>)) (replicate n TimerFired)"
    by (simp add: run_def s)
  moreover have "in_flight (pollSafely (idle\<lparr>timer := True\<rparr>)) = Suc 0"
    by (simp add: in_flight_def pollSafely_def idle_def)
  ultimately have 5: "in_flight (run parser idle (Start # replicate n TimerFired)) = Suc n"
    using run_timer_fires [OF t, of parser n] by simp
  show ?thesis
    using 5 by (simp add: step_def pollSafely_def in_flight_def)
qed

end
